theory Spec2Isabelle
  imports Complex_Main "HOL-Library.AList" "HOL-Library.Sublist"
begin

section \<open>Python values\<close>

text \<open>
  The values the program handles are what \<^verbatim>\<open>response.json()\<close> returns and what a caller
  passes as keyword arguments: \<^verbatim>\<open>None\<close>, booleans, integers, floats, strings, lists and
  dictionaries with string keys. A dictionary is an association list in insertion order
  (a Python \<^verbatim>\<open>dict\<close> has pairwise distinct keys; lookup takes the first entry). A float
  is carried as the rational it denotes: the program only tests floats for truth, formats
  them and stores them in cells.
\<close>

datatype json =
    JNull
  | JBool bool
  | JInt int
  | JFloat rat
  | JStr string
  | JArr "json list"
  | JObj "(string \<times> json) list"

type_synonym dict = "(string \<times> json) list"

text \<open>
  The exceptions of the program. \<open>KeyError\<close> carries its argument (the message string of
  line 28, or the key of a failed lookup). \<open>RequestError\<close> stands for whatever
  \<^verbatim>\<open>requests.get\<close>, \<^verbatim>\<open>raise_for_status\<close> and \<^verbatim>\<open>response.json\<close> raise.
\<close>

datatype error =
    KeyError json
  | IndexError
  | TypeError
  | AttributeError
  | ValueError
  | RequestError string

definition thn :: "error + 'a \<Rightarrow> ('a \<Rightarrow> error + 'b) \<Rightarrow> error + 'b" where
  "thn r f = (case r of Inl e \<Rightarrow> Inl e | Inr x \<Rightarrow> f x)"

definition truthy :: "json \<Rightarrow> bool" where
  "truthy v = (case v of
       JNull \<Rightarrow> False
     | JBool b \<Rightarrow> b
     | JInt n \<Rightarrow> n \<noteq> 0
     | JFloat x \<Rightarrow> x \<noteq> 0
     | JStr s \<Rightarrow> s \<noteq> []
     | JArr xs \<Rightarrow> xs \<noteq> []
     | JObj d \<Rightarrow> d \<noteq> [])"

text \<open>
  A replacement field \<^verbatim>\<open>{v}\<close> of an f-string: a string is inserted as it is; the text of
  any other value is Python's \<^verbatim>\<open>str(v)\<close>, which is a parameter \<open>str_of\<close> of the model.
\<close>

definition py_format :: "(json \<Rightarrow> string) \<Rightarrow> json \<Rightarrow> string" where
  "py_format str_of v = (case v of JStr s \<Rightarrow> s | _ \<Rightarrow> str_of v)"

definition dict_get :: "dict \<Rightarrow> string \<Rightarrow> json option" where
  "dict_get d k = map_of d k"

definition dict_set :: "string \<Rightarrow> json \<Rightarrow> dict \<Rightarrow> dict" where
  "dict_set k v d = AList.update k v d"

text \<open>\<^verbatim>\<open>d.get(k)\<close> on the keyword dictionary: the value, or \<^verbatim>\<open>None\<close>.\<close>

definition params_get :: "dict \<Rightarrow> string \<Rightarrow> json" where
  "params_get d k = (case dict_get d k of Some v \<Rightarrow> v | None \<Rightarrow> JNull)"

text \<open>\<^verbatim>\<open>x.get(k, default)\<close>: only a dictionary has the method.\<close>

definition py_get :: "json \<Rightarrow> string \<Rightarrow> json \<Rightarrow> error + json" where
  "py_get x k dflt = (case x of
       JObj d \<Rightarrow> Inr (case dict_get d k of Some v \<Rightarrow> v | None \<Rightarrow> dflt)
     | _ \<Rightarrow> Inl AttributeError)"

text \<open>\<^verbatim>\<open>k in x\<close> for a string \<open>k\<close>: key of a dictionary, element of a list, substring of a string.\<close>

definition py_contains :: "string \<Rightarrow> json \<Rightarrow> error + bool" where
  "py_contains k x = (case x of
       JObj d \<Rightarrow> Inr (k \<in> set (map fst d))
     | JArr xs \<Rightarrow> Inr (JStr k \<in> set xs)
     | JStr s \<Rightarrow> Inr (sublist k s)
     | _ \<Rightarrow> Inl TypeError)"

text \<open>\<^verbatim>\<open>x[k]\<close> for a string \<open>k\<close>.\<close>

definition py_getitem :: "json \<Rightarrow> string \<Rightarrow> error + json" where
  "py_getitem x k = (case x of
       JObj d \<Rightarrow> (case dict_get d k of Some v \<Rightarrow> Inr v | None \<Rightarrow> Inl (KeyError (JStr k)))
     | _ \<Rightarrow> Inl TypeError)"

text \<open>\<^verbatim>\<open>len(x)\<close>.\<close>

definition py_len :: "json \<Rightarrow> error + nat" where
  "py_len x = (case x of
       JArr xs \<Rightarrow> Inr (length xs)
     | JStr s \<Rightarrow> Inr (length s)
     | JObj d \<Rightarrow> Inr (length d)
     | _ \<Rightarrow> Inl TypeError)"

text \<open>
  \<^verbatim>\<open>x[i]\<close> for an index \<open>i \<ge> 0\<close>: a list or a string raises IndexError out of range, a
  dictionary (whose keys are strings) raises KeyError, anything else is not subscriptable.
\<close>

definition py_index :: "json \<Rightarrow> nat \<Rightarrow> error + json" where
  "py_index x i = (case x of
       JArr xs \<Rightarrow> (if i < length xs then Inr (xs ! i) else Inl IndexError)
     | JStr s \<Rightarrow> (if i < length s then Inr (JStr [s ! i]) else Inl IndexError)
     | JObj d \<Rightarrow> Inl (KeyError (JInt (int i)))
     | _ \<Rightarrow> Inl TypeError)"

text \<open>\<^verbatim>\<open>sep.join(xs)\<close>: every item must be a string.\<close>

fun join_strs :: "string \<Rightarrow> string list \<Rightarrow> string" where
  "join_strs sep [] = []"
| "join_strs sep [x] = x"
| "join_strs sep (x # y # zs) = x @ sep @ join_strs sep (y # zs)"

fun as_strs :: "json list \<Rightarrow> error + string list" where
  "as_strs [] = Inr []"
| "as_strs (JStr s # xs) = (case as_strs xs of Inl e \<Rightarrow> Inl e | Inr ss \<Rightarrow> Inr (s # ss))"
| "as_strs (_ # xs) = Inl TypeError"

definition str_join :: "string \<Rightarrow> json list \<Rightarrow> error + string" where
  "str_join sep xs = thn (as_strs xs) (\<lambda>ss. Inr (join_strs sep ss))"

section \<open>The part of pandas the program uses\<close>

text \<open>
  A DataFrame is its index, one label per row, and its columns in order, each holding one
  cell per row. The label of a row is its position (a RangeIndex) or, once a dictionary
  has given the frame its index, a key. A cell holds a Python value, or NaN where there is
  no entry. Conversion of column types is not modelled.
\<close>

datatype cell = Cell json | NaN

datatype label = Pos nat | Key string

record dataframe =
  index :: "label list"
  cols :: "(string \<times> cell list) list"

definition nrows :: "dataframe \<Rightarrow> nat" where
  "nrows df = length (index df)"

definition columns :: "dataframe \<Rightarrow> string list" where
  "columns df = map fst (cols df)"

definition column :: "dataframe \<Rightarrow> string \<Rightarrow> cell list option" where
  "column df c = map_of (cols df) c"

definition add_key :: "string \<Rightarrow> string list \<Rightarrow> string list" where
  "add_key k ks = (if k \<in> set ks then ks else ks @ [k])"

text \<open>
  \<^verbatim>\<open>pd.DataFrame(rows)\<close> for a list of dictionaries: the columns are the keys in order of
  first appearance, the cells are the rows' entries.
\<close>

definition DataFrame :: "dict list \<Rightarrow> dataframe" where
  "DataFrame rows =
     \<lparr>index = map Pos [0..<length rows],
      cols = map (\<lambda>c. (c, map (\<lambda>r. case dict_get r c of Some v \<Rightarrow> Cell v | None \<Rightarrow> NaN) rows))
               (fold add_key (concat (map (map fst) rows)) [])\<rparr>"

text \<open>
  The value given to \<^verbatim>\<open>df.insert\<close>: a Python value, or a Series that \<^verbatim>\<open>df.pop\<close> took
  from the same frame.
\<close>

datatype colvalue = Value json | Series "cell list"

text \<open>
  A frame without rows takes its index from the first non-empty list (positions) or
  dictionary (keys) that is inserted; the columns it has are filled with NaN.
\<close>

definition reindexed :: "label list \<Rightarrow> dataframe \<Rightarrow> dataframe" where
  "reindexed ix df =
     \<lparr>index = ix, cols = map (\<lambda>(c, cs). (c, replicate (length ix) NaN)) (cols df)\<rparr>"

definition ensure_valid_index :: "json \<Rightarrow> dataframe \<Rightarrow> dataframe" where
  "ensure_valid_index v df =
     (if index df = [] then
        (case v of
           JArr xs \<Rightarrow> (if xs \<noteq> [] then reindexed (map Pos [0..<length xs]) df else df)
         | JObj d \<Rightarrow> (if d \<noteq> [] then reindexed (map (Key \<circ> fst) d) df else df)
         | _ \<Rightarrow> df)
      else df)"

text \<open>
  The cells of the new column: a list must have one item per row (a ValueError
  otherwise) and gives its items, whatever they are; a dictionary is turned into a Series
  and aligned with the index by its keys, so that it gives NaN in a frame indexed by
  positions; any other value is repeated for every row.
\<close>

definition sanitize_column :: "json \<Rightarrow> label list \<Rightarrow> error + cell list" where
  "sanitize_column v ix = (case v of
       JArr xs \<Rightarrow> (if length xs = length ix then Inr (map Cell xs) else Inl ValueError)
     | JObj d \<Rightarrow>
         Inr (map (\<lambda>l. case l of
                         Key k \<Rightarrow> (case dict_get d k of Some x \<Rightarrow> Cell x | None \<Rightarrow> NaN)
                       | Pos _ \<Rightarrow> NaN) ix)
     | _ \<Rightarrow> Inr (replicate (length ix) (Cell v)))"

definition place :: "nat \<Rightarrow> string \<Rightarrow> dataframe \<Rightarrow> cell list \<Rightarrow> error + dataframe" where
  "place loc c df cs =
     (if loc \<le> length (cols df)
      then Inr (df\<lparr>cols := take loc (cols df) @ [(c, cs)] @ drop loc (cols df)\<rparr>)
      else Inl IndexError)"

text \<open>
  \<^verbatim>\<open>df.insert(loc, column, value)\<close>: refuses a label the frame already has, then makes
  the cells of the value and puts the column at position \<open>loc\<close>.
\<close>

definition df_insert :: "nat \<Rightarrow> string \<Rightarrow> colvalue \<Rightarrow> dataframe \<Rightarrow> error + dataframe" where
  "df_insert loc c value df =
     (if c \<in> set (columns df) then Inl ValueError
      else (case value of
              Value v \<Rightarrow>
                (let df = ensure_valid_index v df
                 in thn (sanitize_column v (index df)) (place loc c df))
            | Series cs \<Rightarrow> place loc c df cs))"

text \<open>\<^verbatim>\<open>df.pop(c)\<close>: removes the column and returns its cells.\<close>

definition df_pop :: "string \<Rightarrow> dataframe \<Rightarrow> error + cell list \<times> dataframe" where
  "df_pop c df = (case column df c of
       None \<Rightarrow> Inl (KeyError (JStr c))
     | Some cs \<Rightarrow> Inr (cs, df\<lparr>cols := AList.delete c (cols df)\<rparr>))"

section \<open>get_weather_data_df\<close>

text \<open>Lines 20-21: a list under the keyword \<^verbatim>\<open>hourly\<close> is replaced by its comma-joined text.\<close>

definition join_hourly :: "dict \<Rightarrow> error + dict" where
  "join_hourly params = (case params_get params ''hourly'' of
       JArr xs \<Rightarrow> thn (str_join '','' xs) (\<lambda>s. Inr (dict_set ''hourly'' (JStr s) params))
     | _ \<Rightarrow> Inr params)"

text \<open>Lines 27-30: the check for the data key, and the series under it.\<close>

definition not_found_message :: "string \<Rightarrow> string" where
  "not_found_message data_key = CHR 0x27 # data_key @ CHR 0x27 # '' not found in the response''"

definition select_data_key :: "string \<Rightarrow> json \<Rightarrow> error + json" where
  "select_data_key data_key data =
     thn (py_contains data_key data) (\<lambda>present.
       if \<not> present then Inl (KeyError (JStr (not_found_message data_key)))
       else py_getitem data data_key)"

text \<open>Line 34.\<close>

definition time_col_name :: "(json \<Rightarrow> string) \<Rightarrow> json \<Rightarrow> string" where
  "time_col_name str_of timezone =
     (if truthy timezone then ''time ('' @ py_format str_of timezone @ '')'' else ''time'')"

text \<open>Lines 42-43.\<close>

definition label_of :: "(json \<Rightarrow> string) \<Rightarrow> string \<Rightarrow> json \<Rightarrow> string" where
  "label_of str_of key unit =
     (if truthy unit then key @ '' ('' @ py_format str_of unit @ '')'' else key)"

text \<open>
  Lines 40-44, the inner loop over the items of \<^verbatim>\<open>weather_data\<close> still to visit
  (\<^verbatim>\<open>weather_data[key]\<close> is the value the iteration is at).
\<close>

fun fill_row :: "(json \<Rightarrow> string) \<Rightarrow> json \<Rightarrow> nat \<Rightarrow> dict \<Rightarrow> dict \<Rightarrow> error + dict" where
  "fill_row str_of units i [] row = Inr row"
| "fill_row str_of units i ((key, series) # rest) row =
     (if key \<noteq> ''time'' then
        (case py_get units key (JStr []) of
           Inl e \<Rightarrow> Inl e
         | Inr unit \<Rightarrow>
            (case py_index series i of
               Inl e \<Rightarrow> Inl e
             | Inr v \<Rightarrow> fill_row str_of units i rest (dict_set (label_of str_of key unit) v row)))
      else fill_row str_of units i rest row)"

text \<open>Lines 39-44: the row of index \<open>i\<close>.\<close>

definition make_row :: "(json \<Rightarrow> string) \<Rightarrow> json \<Rightarrow> dict \<Rightarrow> string \<Rightarrow> json \<Rightarrow> nat \<Rightarrow> error + dict" where
  "make_row str_of units series tcol timestamps i =
     thn (py_index timestamps i) (\<lambda>t. fill_row str_of units i series [(tcol, t)])"

text \<open>Lines 37-45: the outer loop, appending each row to the rows built so far.\<close>

fun build_rows :: "(nat \<Rightarrow> error + dict) \<Rightarrow> nat list \<Rightarrow> dict list \<Rightarrow> error + dict list" where
  "build_rows mk [] rows = Inr rows"
| "build_rows mk (i # is) rows =
     (case mk i of Inl e \<Rightarrow> Inl e | Inr row \<Rightarrow> build_rows mk is (rows @ [row]))"

text \<open>Lines 31-45: from the parsed response and the series under the data key to the rows.\<close>

definition reshape :: "(json \<Rightarrow> string) \<Rightarrow> string \<Rightarrow> json \<Rightarrow> json \<Rightarrow> error + dict list" where
  "reshape str_of data_key data weather_data =
     thn (py_get data (data_key @ ''_units'') (JObj [])) (\<lambda>units.
     thn (py_get data ''timezone'' (JStr ''UTC'')) (\<lambda>timezone.
     thn (py_get weather_data ''time'' (JArr [])) (\<lambda>timestamps.
     thn (py_len timestamps) (\<lambda>n.
     (case weather_data of
        JObj series \<Rightarrow>
          build_rows (make_row str_of units series (time_col_name str_of timezone) timestamps)
            [0..<n] []
      | _ \<Rightarrow> Inl TypeError)))))"

text \<open>Line 57: the first column whose label starts with \<^verbatim>\<open>time\<close>.\<close>

definition find_time_col :: "dataframe \<Rightarrow> error + string" where
  "find_time_col df = (case filter (prefix ''time'') (columns df) of
       [] \<Rightarrow> Inl IndexError
     | c # _ \<Rightarrow> Inr c)"

text \<open>Lines 47-62: the frame of the rows, with the leading columns put in place.\<close>

definition annotate :: "json \<Rightarrow> dict \<Rightarrow> string option \<Rightarrow> dict list \<Rightarrow> error + dataframe" where
  "annotate data params location_name rows =
     (let df = DataFrame rows in
      thn (py_get data ''latitude'' (params_get params ''latitude'')) (\<lambda>lat.
      thn (py_get data ''longitude'' (params_get params ''longitude'')) (\<lambda>lon.
      thn (py_get data ''elevation'' (params_get params ''elevation'')) (\<lambda>ele.
      thn (df_insert 0 ''latitude'' (Value lat) df) (\<lambda>df.
      thn (df_insert 1 ''longitude'' (Value lon) df) (\<lambda>df.
      thn (df_insert 2 ''elevation'' (Value ele) df) (\<lambda>df.
      thn (find_time_col df) (\<lambda>time_col.
      thn (df_pop time_col df) (\<lambda>(time_data, df).
      thn (df_insert 3 time_col (Series time_data) df) (\<lambda>df.
      (case location_name of
         Some name \<Rightarrow>
           (if name \<noteq> [] then df_insert 0 ''location'' (Value (JStr name)) df else Inr df)
       | None \<Rightarrow> Inr df)))))))))))"

text \<open>
  The files written by \<^verbatim>\<open>to_csv\<close>: a file name is mapped to the frame last written to it
  (the text of the file is not modelled).
\<close>

type_synonym files = "string \<Rightarrow> dataframe option"

text \<open>Lines 64-65.\<close>

definition export_csv :: "bool \<Rightarrow> string option \<Rightarrow> dataframe \<Rightarrow> files \<Rightarrow> files" where
  "export_csv export filename df fs = (case filename of
       Some name \<Rightarrow> (if export \<and> name \<noteq> [] then fs(name \<mapsto> df) else fs)
     | None \<Rightarrow> fs)"

text \<open>Lines 27-67: what the function does with the parsed response.\<close>

definition process_response ::
  "(json \<Rightarrow> string) \<Rightarrow> string \<Rightarrow> bool \<Rightarrow> string option \<Rightarrow> string option \<Rightarrow> dict \<Rightarrow> files \<Rightarrow>
     json \<Rightarrow> error + dataframe \<times> files" where
  "process_response str_of data_key export filename location_name params fs data =
     thn (select_data_key data_key data) (\<lambda>weather_data.
     thn (reshape str_of data_key data weather_data) (\<lambda>rows.
     thn (annotate data params location_name rows) (\<lambda>df.
     Inr (df, export_csv export filename df fs))))"

text \<open>
  The whole function. \<open>http_get\<close> stands for lines 23-25: from the URL and the query
  parameters to the parsed body, or to the error of the request. The keyword dictionary
  \<open>params\<close> holds the keywords that are not named parameters of the function.
\<close>

definition get_weather_data_df ::
  "(string \<Rightarrow> dict \<Rightarrow> error + json) \<Rightarrow> (json \<Rightarrow> string) \<Rightarrow> string \<Rightarrow> string \<Rightarrow> bool \<Rightarrow>
     string option \<Rightarrow> string option \<Rightarrow> dict \<Rightarrow> files \<Rightarrow> error + dataframe \<times> files" where
  "get_weather_data_df http_get str_of base_url data_key export filename location_name params fs =
     thn (join_hourly params) (\<lambda>params.
     thn (http_get base_url params)
       (process_response str_of data_key export filename location_name params fs))"

section \<open>get_weather_data_multiple_locations\<close>

text \<open>Line 86.\<close>

definition progress_line :: "(json \<Rightarrow> string) \<Rightarrow> string \<Rightarrow> json \<Rightarrow> json \<Rightarrow> string" where
  "progress_line str_of name lat lon =
     ''Fetching data for '' @ name @ '': ('' @ py_format str_of lat @ '', ''
       @ py_format str_of lon @ '')''"

text \<open>
  Lines 87-95, the call: a shared keyword that repeats \<^verbatim>\<open>latitude\<close>, \<^verbatim>\<open>longitude\<close> or
  \<^verbatim>\<open>location_name\<close> is a TypeError of the call; a shared keyword \<^verbatim>\<open>filename\<close> binds the
  parameter of that name (which is read only when export is on); the other shared
  keywords follow the two coordinates in the keyword dictionary of the callee. The shared
  keywords \<open>params\<close> never hold the names of the driver's own parameters, and a location
  is a name with its pair of coordinates.
\<close>

definition call_for_location ::
  "(string \<Rightarrow> dict \<Rightarrow> error + json) \<Rightarrow> (json \<Rightarrow> string) \<Rightarrow> string \<Rightarrow> string \<Rightarrow> dict \<Rightarrow>
     string \<Rightarrow> json \<Rightarrow> json \<Rightarrow> files \<Rightarrow> error + dataframe \<times> files" where
  "call_for_location http_get str_of base_url data_key params name lat lon fs =
     (if ''latitude'' \<in> set (map fst params) \<or> ''longitude'' \<in> set (map fst params)
         \<or> ''location_name'' \<in> set (map fst params)
      then Inl TypeError
      else get_weather_data_df http_get str_of base_url data_key False
             (case dict_get params ''filename'' of Some (JStr f) \<Rightarrow> Some f | _ \<Rightarrow> None)
             (Some name)
             ((''latitude'', lat) # (''longitude'', lon) # AList.delete ''filename'' params) fs)"

text \<open>
  Lines 85-96, the loop over the locations still to visit. \<open>net k\<close> answers the \<open>k\<close>-th
  request of the run; \<open>out\<close> is the text printed so far, which an error leaves behind.
\<close>

fun locations_loop ::
  "(nat \<Rightarrow> string \<Rightarrow> dict \<Rightarrow> error + json) \<Rightarrow> (json \<Rightarrow> string) \<Rightarrow> string \<Rightarrow> string \<Rightarrow> dict \<Rightarrow>
     nat \<Rightarrow> (string \<times> json \<times> json) list \<Rightarrow> dataframe list \<Rightarrow> string list \<Rightarrow> files \<Rightarrow>
     string list \<times> (error + dataframe list \<times> files)" where
  "locations_loop net str_of base_url data_key params k [] all_dfs out fs = (out, Inr (all_dfs, fs))"
| "locations_loop net str_of base_url data_key params k ((name, lat, lon) # rest) all_dfs out fs =
     (let out' = out @ [progress_line str_of name lat lon] in
      case call_for_location (net k) str_of base_url data_key params name lat lon fs of
        Inl e \<Rightarrow> (out', Inl e)
      | Inr (df, fs') \<Rightarrow>
          locations_loop net str_of base_url data_key params (Suc k) rest (all_dfs @ [df]) out' fs')"

text \<open>The driver; its \<open>export\<close> parameter is not read.\<close>

definition get_weather_data_multiple_locations ::
  "(nat \<Rightarrow> string \<Rightarrow> dict \<Rightarrow> error + json) \<Rightarrow> (json \<Rightarrow> string) \<Rightarrow> string \<Rightarrow>
     (string \<times> json \<times> json) list \<Rightarrow> string \<Rightarrow> bool \<Rightarrow> dict \<Rightarrow> files \<Rightarrow>
     string list \<times> (error + dataframe list \<times> files)" where
  "get_weather_data_multiple_locations net str_of base_url locations data_key export params fs =
     locations_loop net str_of base_url data_key params 0 locations [] [] fs"

section \<open>Notions used in the statements\<close>

text \<open>A list without its repetitions: each element stays where it first occurs.\<close>

fun first_occ :: "string list \<Rightarrow> string list" where
  "first_occ [] = []"
| "first_occ (x # xs) = x # first_occ (removeAll x xs)"

text \<open>
  What lines 42-43 compute for a variable: its unit (the empty string when the units have
  no entry for it) and, for all variables but \<^verbatim>\<open>time\<close> in the order of the series, the labels.
\<close>

definition unit_of :: "json \<Rightarrow> string \<Rightarrow> json" where
  "unit_of units key = (case py_get units key (JStr []) of Inr u \<Rightarrow> u | Inl _ \<Rightarrow> JStr [])"

definition var_labels :: "(json \<Rightarrow> string) \<Rightarrow> json \<Rightarrow> dict \<Rightarrow> string list" where
  "var_labels str_of units series =
     map (\<lambda>key. label_of str_of key (unit_of units key))
       (filter (\<lambda>key. key \<noteq> ''time'') (map fst series))"

text \<open>A value that is neither a list nor a dictionary.\<close>

definition is_scalar :: "json \<Rightarrow> bool" where
  "is_scalar v = (case v of JArr _ \<Rightarrow> False | JObj _ \<Rightarrow> False | _ \<Rightarrow> True)"

text \<open>The column that line 62 inserts, for a frame of \<open>n\<close> rows.\<close>

definition location_column :: "string option \<Rightarrow> nat \<Rightarrow> (string \<times> cell list) list" where
  "location_column location_name n = (case location_name of
       Some name \<Rightarrow> (if name \<noteq> [] then [(''location'', replicate n (Cell (JStr name)))] else [])
     | None \<Rightarrow> [])"

text \<open>
  Lines 31, 32 and 35 on a response \<open>d\<close> that is a dictionary and on the dictionary
  \<open>series\<close> under the data key; lines 49-51 for one of the three coordinate names.
\<close>

definition units_of :: "string \<Rightarrow> dict \<Rightarrow> json" where
  "units_of data_key d = (case dict_get d (data_key @ ''_units'') of Some u \<Rightarrow> u | None \<Rightarrow> JObj [])"

definition timezone_of :: "dict \<Rightarrow> json" where
  "timezone_of d = (case dict_get d ''timezone'' of Some z \<Rightarrow> z | None \<Rightarrow> JStr ''UTC'')"

definition timestamps_of :: "dict \<Rightarrow> json" where
  "timestamps_of series = (case dict_get series ''time'' of Some t \<Rightarrow> t | None \<Rightarrow> JArr [])"

definition coordinate :: "dict \<Rightarrow> dict \<Rightarrow> string \<Rightarrow> json" where
  "coordinate d params k = (case dict_get d k of Some v \<Rightarrow> v | None \<Rightarrow> params_get params k)"

text \<open>The keys of every row the loop builds, in order (see \<open>make_row_keys\<close> below).\<close>

definition row_labels :: "(json \<Rightarrow> string) \<Rightarrow> string \<Rightarrow> dict \<Rightarrow> dict \<Rightarrow> string list" where
  "row_labels str_of data_key d series =
     time_col_name str_of (timezone_of d)
     # first_occ (filter (\<lambda>l. l \<noteq> time_col_name str_of (timezone_of d))
                  (var_labels str_of (units_of data_key d) series))"

text \<open>
  The specification's wording of the label of a variable (the name directly followed by
  the unit in parentheses) and of the column order (the location when a label is given,
  the three coordinates, the time column, the labels of the other variables), to be
  compared with what the program computes.
\<close>

definition stated_label :: "string \<Rightarrow> string option \<Rightarrow> string" where
  "stated_label variable unit = (case unit of
       Some u \<Rightarrow> variable @ ''('' @ u @ '')''
     | None \<Rightarrow> variable)"

definition stated_column_order :: "string option \<Rightarrow> string \<Rightarrow> string list \<Rightarrow> string list" where
  "stated_column_order location_name tcol labels =
     (case location_name of Some _ \<Rightarrow> [''location''] | None \<Rightarrow> [])
     @ [''latitude'', ''longitude'', ''elevation'', tcol] @ labels"

text \<open>
  Example inputs and the frames the program returns for them. The scenario is the one of
  the specification, with the unit written \<^verbatim>\<open>C\<close> and the elevation 5 in the keywords; the
  second response has two variables that get the same label; the third has a series
  shorter than the timestamps; the bare response has no coordinates of its own (the
  driver's frames, and the frame of a call with the keyword \<^verbatim>\<open>latitude=["52.5"]\<close>); the
  series of two rows have two timestamps.
\<close>

definition scenario_series :: dict where
  "scenario_series =
     [(''time'', JArr [JStr ''2024-01-01T00:00'']), (''temperature_2m'', JArr [JFloat (53 / 10)])]"

definition scenario_response :: dict where
  "scenario_response =
     [(''hourly'', JObj scenario_series),
      (''hourly_units'', JObj [(''temperature_2m'', JStr ''C'')]),
      (''timezone'', JStr ''UTC''),
      (''latitude'', JFloat (2059 / 100)),
      (''longitude'', JFloat (7437 / 100))]"

definition scenario_frame :: dataframe where
  "scenario_frame =
     \<lparr>index = [Pos 0],
      cols = [(''location'', [Cell (JStr ''Nashik'')]),
              (''latitude'', [Cell (JFloat (2059 / 100))]),
              (''longitude'', [Cell (JFloat (7437 / 100))]),
              (''elevation'', [Cell (JInt 5)]),
              (''time (UTC)'', [Cell (JStr ''2024-01-01T00:00'')]),
              (''temperature_2m (C)'', [Cell (JFloat (53 / 10))])]\<rparr>"

definition merged_series :: dict where
  "merged_series =
     [(''time'', JArr [JStr ''t0'']), (''rain (mm)'', JArr [JInt 1]), (''rain'', JArr [JInt 2])]"

definition merged_response :: dict where
  "merged_response =
     [(''hourly'', JObj merged_series), (''hourly_units'', JObj [(''rain'', JStr ''mm'')])]"

definition merged_frame :: dataframe where
  "merged_frame =
     \<lparr>index = [Pos 0],
      cols = [(''latitude'', [Cell JNull]),
              (''longitude'', [Cell JNull]),
              (''elevation'', [Cell JNull]),
              (''time (UTC)'', [Cell (JStr ''t0'')]),
              (''rain (mm)'', [Cell (JInt 2)])]\<rparr>"

definition short_series :: dict where
  "short_series =
     [(''time'', JArr [JStr ''t0'', JStr ''t1'']), (''rain'', JArr [JInt 1])]"

definition bare_response :: dict where
  "bare_response = [(''hourly'', JObj [(''time'', JArr [JStr ''t0''])])]"

definition bare_frame :: "string \<Rightarrow> int \<Rightarrow> int \<Rightarrow> dataframe" where
  "bare_frame name lat lon =
     \<lparr>index = [Pos 0],
      cols = [(''location'', [Cell (JStr name)]),
              (''latitude'', [Cell (JInt lat)]),
              (''longitude'', [Cell (JInt lon)]),
              (''elevation'', [Cell JNull]),
              (''time (UTC)'', [Cell (JStr ''t0'')])]\<rparr>"



definition list_frame :: dataframe where
  "list_frame =
     \<lparr>index = [Pos 0],
      cols = [(''latitude'', [Cell (JStr ''52.5'')]),
              (''longitude'', [Cell JNull]),
              (''elevation'', [Cell JNull]),
              (''time (UTC)'', [Cell (JStr ''t0'')])]\<rparr>"

section \<open>Basic facts\<close>

lemma thn_Inr [simp]: "thn (Inr x) f = f x"
  by (simp add: thn_def)

lemma thn_Inl [simp]: "thn (Inl e) f = Inl e"
  by (simp add: thn_def)

lemma thn_eq_Inr: "thn r f = Inr y \<longleftrightarrow> (\<exists>x. r = Inr x \<and> f x = Inr y)"
  by (cases r) simp_all

lemma dict_get_set: "dict_get (dict_set k v d) k' = (if k' = k then Some v else dict_get d k')"
  by (simp add: dict_get_def dict_set_def update_conv')


lemma join_hourly_other_keys:
  "join_hourly params = Inr q \<Longrightarrow> k \<noteq> ''hourly'' \<Longrightarrow> dict_get q k = dict_get params k"
  by (auto simp: join_hourly_def thn_eq_Inr dict_get_set split: json.splits)

text \<open>Keys of dictionaries and columns of frames built from them.\<close>

lemma fold_add_key: "fold add_key xs acc = acc @ first_occ (filter (\<lambda>x. x \<notin> set acc) xs)"
proof (induction xs arbitrary: acc)
  case Nil
  show ?case by simp
next
  case (Cons x xs)
  show ?case
  proof (cases "x \<in> set acc")
    case True
    then have "add_key x acc = acc" by (simp add: add_key_def)
    with True show ?thesis by (simp add: Cons.IH)
  next
    case False
    then have "add_key x acc = acc @ [x]" by (simp add: add_key_def)
    moreover
    have "removeAll x (filter (\<lambda>y. y \<notin> set acc) xs) = filter (\<lambda>y. y \<notin> set (acc @ [x])) xs"
      by (induction xs) auto
    ultimately show ?thesis using False by (simp add: Cons.IH)
  qed
qed

lemma first_occ_distinct: "distinct xs \<Longrightarrow> first_occ xs = xs"
  by (induction xs) simp_all

lemma set_first_occ: "set (first_occ xs) = set xs"
proof (induction xs rule: first_occ.induct)
  case 1
  show ?case by simp
next
  case (2 x xs)
  then show ?case by auto
qed

lemma distinct_first_occ: "distinct (first_occ xs)"
proof (induction xs rule: first_occ.induct)
  case 1
  show ?case by simp
next
  case (2 x xs)
  then show ?case by (simp add: set_first_occ)
qed

lemma fold_add_key_subset: "set xs \<subseteq> set acc \<Longrightarrow> fold add_key xs acc = acc"
proof -
  assume "set xs \<subseteq> set acc"
  then have "filter (\<lambda>x. x \<notin> set acc) xs = []"
    by (auto simp: filter_empty_conv)
  then show ?thesis by (simp add: fold_add_key)
qed

lemma keys_dict_set: "map fst (dict_set k v d) = add_key k (map fst d)"
  by (simp add: dict_set_def add_key_def update_keys)

lemma fill_row_keys:
  "fill_row str_of units i series row = Inr row' \<Longrightarrow>
   map fst row' = fold add_key (var_labels str_of units series) (map fst row)"
proof (induction series arbitrary: row)
  case Nil
  then show ?case by (simp add: var_labels_def)
next
  case (Cons p series)
  obtain key s where p: "p = (key, s)" by (cases p)
  show ?case
  proof (cases "key = ''time''")
    case True
    with Cons p show ?thesis by (simp add: var_labels_def)
  next
    case False
    with Cons.prems p obtain unit v where
      u: "py_get units key (JStr []) = Inr unit" and
      v: "py_index s i = Inr v" and
      r: "fill_row str_of units i series (dict_set (label_of str_of key unit) v row) = Inr row'"
      by (auto split: sum.splits)
    from u have "unit_of units key = unit" by (simp add: unit_of_def)
    with Cons.IH [OF r] False p show ?thesis
      by (simp add: var_labels_def keys_dict_set)
  qed
qed

lemma make_row_keys:
  assumes "make_row str_of units series tcol timestamps i = Inr row"
  shows "map fst row = tcol # first_occ (filter (\<lambda>l. l \<noteq> tcol) (var_labels str_of units series))"
proof -
  from assms obtain t where "fill_row str_of units i series [(tcol, t)] = Inr row"
    by (auto simp: make_row_def thn_eq_Inr)
  then show ?thesis
    by (simp add: fill_row_keys fold_add_key)
qed

lemma build_rows_acc:
  "build_rows mk is rows = Inr rows' \<Longrightarrow>
   \<exists>new. rows' = rows @ new \<and> list_all2 (\<lambda>i r. mk i = Inr r) is new"
proof (induction "is" arbitrary: rows)
  case Nil
  then show ?case by simp
next
  case (Cons i "is")
  from Cons.prems obtain row where
    row: "mk i = Inr row" and rest: "build_rows mk is (rows @ [row]) = Inr rows'"
    by (auto split: sum.splits)
  from Cons.IH [OF rest] obtain new where
    "rows' = (rows @ [row]) @ new" "list_all2 (\<lambda>i r. mk i = Inr r) is new"
    by blast
  with row show ?case by (intro exI [of _ "row # new"]) simp
qed

lemma build_rows_Inr:
  assumes "build_rows mk is [] = Inr rows"
  shows "list_all2 (\<lambda>i r. mk i = Inr r) is rows"
  using build_rows_acc [OF assms] by simp

lemma DataFrame_columns:
  assumes "rows \<noteq> []" and "\<forall>r \<in> set rows. map fst r = ks" and "distinct ks"
  shows "columns (DataFrame rows) = ks"
proof -
  from assms(1) obtain r rs where rows: "rows = r # rs" by (cases rows) auto
  with assms(2) have r: "map fst r = ks" by simp
  have "set (concat (map (map fst) rs)) \<subseteq> set ks"
    using assms(2) rows by auto
  then have "fold add_key (concat (map (map fst) rs)) ks = ks"
    by (rule fold_add_key_subset)
  moreover have "fold add_key ks [] = ks"
    using assms(3) by (simp add: fold_add_key first_occ_distinct)
  ultimately have "fold add_key (concat (map (map fst) rows)) [] = ks"
    using rows r by simp
  then show ?thesis
    by (simp add: columns_def DataFrame_def comp_def)
qed


text \<open>What \<^verbatim>\<open>df.insert\<close> does to a frame.\<close>

lemma ensure_valid_index_nonempty: "index df \<noteq> [] \<Longrightarrow> ensure_valid_index v df = df"
  by (simp add: ensure_valid_index_def)

lemma columns_reindexed: "columns (reindexed ix df) = columns df"
  by (simp add: reindexed_def columns_def comp_def case_prod_unfold)

lemma columns_ensure_valid_index: "columns (ensure_valid_index v df) = columns df"
  by (simp add: ensure_valid_index_def columns_reindexed split: json.splits)


lemma sanitize_column_outcome:
  "sanitize_column v ix = Inl ValueError \<or> (\<exists>cs. sanitize_column v ix = Inr cs)"
  by (simp add: sanitize_column_def split: json.splits)

lemma sanitize_column_scalar:
  "is_scalar v \<Longrightarrow> sanitize_column v ix = Inr (replicate (length ix) (Cell v))"
  by (simp add: sanitize_column_def is_scalar_def split: json.splits)

lemma sanitize_column_list:
  "sanitize_column (JArr xs) ix = Inr cs \<longleftrightarrow> length xs = length ix \<and> cs = map Cell xs"
  by (auto simp: sanitize_column_def)

lemma df_insert_Value:
  "df_insert loc c (Value v) df
   = (if c \<in> set (columns df) then Inl ValueError
      else thn (sanitize_column v (index (ensure_valid_index v df)))
             (place loc c (ensure_valid_index v df)))"
  by (simp add: df_insert_def Let_def)

lemma df_insert_Series:
  "df_insert loc c (Series cs) df
   = (if c \<in> set (columns df) then Inl ValueError else place loc c df cs)"
  by (simp add: df_insert_def)

lemma place_InrD:
  assumes "place loc c df cs = Inr df'"
  shows "loc \<le> length (cols df)
         \<and> df' = df\<lparr>cols := take loc (cols df) @ [(c, cs)] @ drop loc (cols df)\<rparr>"
  using assms by (auto simp: place_def split: if_splits)

lemma columns_place:
  assumes "place loc c df cs = Inr df'"
  shows "columns df' = take loc (columns df) @ c # drop loc (columns df)"
  using place_InrD [OF assms] by (simp add: columns_def take_map drop_map)

lemma df_insert_columns:
  assumes "df_insert loc c value df = Inr df'"
  shows "columns df' = take loc (columns df) @ c # drop loc (columns df)"
proof (cases "value")
  case (Value v)
  with assms obtain cs where "place loc c (ensure_valid_index v df) cs = Inr df'"
    by (auto simp: df_insert_Value thn_eq_Inr split: if_splits)
  from columns_place [OF this] show ?thesis
    by (simp add: columns_ensure_valid_index)
next
  case (Series cs)
  with assms have "place loc c df cs = Inr df'"
    by (auto simp: df_insert_Series split: if_splits)
  then show ?thesis by (rule columns_place)
qed

lemma df_insert_value_InrD:
  assumes "df_insert loc c (Value v) df = Inr df'" and "index df \<noteq> []"
  shows "c \<notin> set (columns df) \<and> loc \<le> length (cols df)
         \<and> (\<exists>cs. sanitize_column v (index df) = Inr cs
               \<and> df' = df\<lparr>cols := take loc (cols df) @ [(c, cs)] @ drop loc (cols df)\<rparr>)"
  using assms
  by (auto simp: df_insert_Value thn_eq_Inr ensure_valid_index_nonempty dest: place_InrD
        split: if_splits)

lemma df_insert_series_InrD:
  assumes "df_insert loc c (Series cs) df = Inr df'"
  shows "c \<notin> set (columns df) \<and> loc \<le> length (cols df)
         \<and> df' = df\<lparr>cols := take loc (cols df) @ [(c, cs)] @ drop loc (cols df)\<rparr>"
  using assms by (auto simp: df_insert_Series dest: place_InrD split: if_splits)

lemma df_insert_value_outcome:
  assumes "c \<notin> set (columns df)" and "loc \<le> length (columns df)"
  shows "df_insert loc c (Value v) df = Inl ValueError
         \<or> (\<exists>df'. df_insert loc c (Value v) df = Inr df')"
proof -
  have "loc \<le> length (cols (ensure_valid_index v df))"
    using assms(2) columns_ensure_valid_index [of v df] by (simp add: columns_def) (metis length_map)
  then show ?thesis
    using assms(1) sanitize_column_outcome [of v "index (ensure_valid_index v df)"]
    by (auto simp: df_insert_Value place_def)
qed

lemma df_insert_scalar:
  assumes "c \<notin> set (columns df)" and "loc \<le> length (cols df)" and "is_scalar v"
  shows "df_insert loc c (Value v) df
         = Inr (df\<lparr>cols := take loc (cols df) @ [(c, replicate (nrows df) (Cell v))]
                              @ drop loc (cols df)\<rparr>)"
proof -
  from assms(3) have "ensure_valid_index v df = df"
    by (simp add: ensure_valid_index_def is_scalar_def split: json.splits)
  with assms show ?thesis
    by (simp add: df_insert_Value sanitize_column_scalar place_def nrows_def)
qed

lemma prefix_time_col_name: "prefix ''time'' (time_col_name str_of timezone)"
  by (simp add: time_col_name_def)

text \<open>What a successful run of lines 47-62 looks like.\<close>

lemma annotate_InrD:
  assumes ok: "annotate data params location_name rows = Inr df"
      and c0: "cols (DataFrame rows) = (tcol, cs) # rest"
      and pre: "prefix ''time'' tcol"
      and fresh: "tcol \<notin> fst ` set rest"
  shows "\<exists>lat lon ele clat clon cele.
           py_get data ''latitude'' (params_get params ''latitude'') = Inr lat
         \<and> py_get data ''longitude'' (params_get params ''longitude'') = Inr lon
         \<and> py_get data ''elevation'' (params_get params ''elevation'') = Inr ele
         \<and> sanitize_column lat (map Pos [0..<length rows]) = Inr clat
         \<and> sanitize_column lon (map Pos [0..<length rows]) = Inr clon
         \<and> sanitize_column ele (map Pos [0..<length rows]) = Inr cele
         \<and> df = \<lparr>index = map Pos [0..<length rows],
                 cols = location_column location_name (length rows)
                        @ [(''latitude'', clat), (''longitude'', clon), (''elevation'', cele)]
                        @ cols (DataFrame rows)\<rparr>"
proof -
  define df0 where "df0 = DataFrame rows"
  define ix where "ix = map Pos [0..<length rows]"
  have i0: "index df0 = ix"
    by (simp add: df0_def ix_def DataFrame_def)
  have cols0: "cols df0 = (tcol, cs) # rest"
    using c0 by (simp add: df0_def)
  have "rows \<noteq> []"
    using c0 by (auto simp: DataFrame_def)
  then have ne: "ix \<noteq> []"
    by (simp add: ix_def)
  from ok obtain lat lon ele df1 df2 df3 tc td df4 df5 where
    lat: "py_get data ''latitude'' (params_get params ''latitude'') = Inr lat" and
    lon: "py_get data ''longitude'' (params_get params ''longitude'') = Inr lon" and
    ele: "py_get data ''elevation'' (params_get params ''elevation'') = Inr ele" and
    i1: "df_insert 0 ''latitude'' (Value lat) df0 = Inr df1" and
    i2: "df_insert 1 ''longitude'' (Value lon) df1 = Inr df2" and
    i3: "df_insert 2 ''elevation'' (Value ele) df2 = Inr df3" and
    ft: "find_time_col df3 = Inr tc" and
    pop: "df_pop tc df3 = Inr (td, df4)" and
    i4: "df_insert 3 tc (Series td) df4 = Inr df5" and
    loc: "(case location_name of
             Some name \<Rightarrow>
               (if name \<noteq> [] then df_insert 0 ''location'' (Value (JStr name)) df5 else Inr df5)
           | None \<Rightarrow> Inr df5) = Inr df"
    unfolding annotate_def Let_def df0_def [symmetric]
    by (auto simp: thn_eq_Inr)
  from pre obtain zs where tcol: "tcol = ''time'' @ zs"
    by (auto simp: prefix_def)
  from df_insert_value_InrD [OF i1] i0 ne obtain clat where
    clat: "sanitize_column lat ix = Inr clat" and
    d1: "df1 = df0\<lparr>cols := (''latitude'', clat) # cols df0\<rparr>"
    by auto
  have i1x: "index df1 = ix" using d1 i0 by simp
  from df_insert_value_InrD [OF i2] i1x ne obtain clon where
    clon: "sanitize_column lon ix = Inr clon" and
    d2: "df2 = df0\<lparr>cols := (''latitude'', clat) # (''longitude'', clon) # cols df0\<rparr>"
    by (auto simp: d1)
  have i2x: "index df2 = ix" using d2 i0 by simp
  from df_insert_value_InrD [OF i3] i2x ne obtain cele where
    cele: "sanitize_column ele ix = Inr cele" and
    d3: "df3 = df0\<lparr>cols := (''latitude'', clat) # (''longitude'', clon)
                  # (''elevation'', cele) # cols df0\<rparr>"
    by (auto simp: d2)
  have i3x: "index df3 = ix" using d3 i0 by simp
  have tc: "tc = tcol"
    using ft by (simp add: find_time_col_def columns_def d3 cols0 tcol)
  have td: "td = cs" and d4: "df4 = df0\<lparr>cols := (''latitude'', clat) # (''longitude'', clon)
                  # (''elevation'', cele) # rest\<rparr>"
    using pop fresh by (auto simp: df_pop_def column_def tc d3 cols0 tcol)
  have d5: "df5 = df3"
    using df_insert_series_InrD [OF i4] by (simp add: d4 d3 cols0 tc td)
  have "df = df3\<lparr>cols := location_column location_name (length rows) @ cols df3\<rparr>"
  proof (cases location_name)
    case None
    with loc show ?thesis by (simp add: location_column_def d5)
  next
    case (Some name)
    show ?thesis
    proof (cases "name = []")
      case True
      with loc Some show ?thesis by (simp add: location_column_def d5)
    next
      case False
      with loc Some have "df_insert 0 ''location'' (Value (JStr name)) df3 = Inr df"
        by (simp add: d5)
      from df_insert_value_InrD [OF this] i3x ne Some False show ?thesis
        by (auto simp: location_column_def sanitize_column_def ix_def)
    qed
  qed
  then have "df = \<lparr>index = map Pos [0..<length rows],
                 cols = location_column location_name (length rows)
                        @ [(''latitude'', clat), (''longitude'', clon), (''elevation'', cele)]
                        @ cols (DataFrame rows)\<rparr>"
    by (simp add: d3 df0_def DataFrame_def)
  with lat lon ele clat clon cele show ?thesis
    unfolding ix_def by blast
qed

text \<open>Without rows the frame never gets a time column.\<close>

lemma annotate_no_rows_fails: "annotate data params location_name [] \<noteq> Inr df"
proof
  assume ok: "annotate data params location_name [] = Inr df"
  then obtain lat lon ele df1 df2 df3 tc where
    i1: "df_insert 0 ''latitude'' (Value lat) (DataFrame []) = Inr df1" and
    i2: "df_insert 1 ''longitude'' (Value lon) df1 = Inr df2" and
    i3: "df_insert 2 ''elevation'' (Value ele) df2 = Inr df3" and
    ft: "find_time_col df3 = Inr tc"
    unfolding annotate_def Let_def
    by (auto simp: thn_eq_Inr)
  have "columns df3 = [''latitude'', ''longitude'', ''elevation'']"
    using df_insert_columns [OF i1] df_insert_columns [OF i2] df_insert_columns [OF i3]
    by (simp add: DataFrame_def columns_def)
  with ft show False by (simp add: find_time_col_def)
qed

lemma annotate_no_rows_error:
  assumes "py_get data ''latitude'' (params_get params ''latitude'') = Inr lat"
      and "py_get data ''longitude'' (params_get params ''longitude'') = Inr lon"
      and "py_get data ''elevation'' (params_get params ''elevation'') = Inr ele"
  shows "annotate data params location_name [] = Inl IndexError
         \<or> annotate data params location_name [] = Inl ValueError"
proof -
  let ?df0 = "DataFrame []"
  have c0: "columns ?df0 = []"
    by (simp add: DataFrame_def columns_def)
  have a: "annotate data params location_name [] =
      thn (df_insert 0 ''latitude'' (Value lat) ?df0) (\<lambda>df.
      thn (df_insert 1 ''longitude'' (Value lon) df) (\<lambda>df.
      thn (df_insert 2 ''elevation'' (Value ele) df) (\<lambda>df.
      thn (find_time_col df) (\<lambda>time_col.
      thn (df_pop time_col df) (\<lambda>(time_data, df).
      thn (df_insert 3 time_col (Series time_data) df) (\<lambda>df.
      (case location_name of
         Some name \<Rightarrow>
           (if name \<noteq> [] then df_insert 0 ''location'' (Value (JStr name)) df else Inr df)
       | None \<Rightarrow> Inr df)))))))"
    using assms by (simp add: annotate_def)
  consider "df_insert 0 ''latitude'' (Value lat) ?df0 = Inl ValueError"
    | df1 where "df_insert 0 ''latitude'' (Value lat) ?df0 = Inr df1"
    using df_insert_value_outcome [of "''latitude''" ?df0 0 lat] c0 by auto
  then show ?thesis
  proof cases
    case 1
    then show ?thesis by (simp add: a)
  next
    case (2 df1)
    have c1: "columns df1 = [''latitude'']"
      using df_insert_columns [OF 2] c0 by simp
    consider "df_insert 1 ''longitude'' (Value lon) df1 = Inl ValueError"
      | df2 where "df_insert 1 ''longitude'' (Value lon) df1 = Inr df2"
      using df_insert_value_outcome [of "''longitude''" df1 1 lon] c1 by auto
    then show ?thesis
    proof cases
      case 1
      with 2 show ?thesis by (simp add: a)
    next
      case (2 df2)
      note i2 = 2
      have c2: "columns df2 = [''latitude'', ''longitude'']"
        using df_insert_columns [OF i2] c1 by simp
      consider "df_insert 2 ''elevation'' (Value ele) df2 = Inl ValueError"
        | df3 where "df_insert 2 ''elevation'' (Value ele) df2 = Inr df3"
        using df_insert_value_outcome [of "''elevation''" df2 2 ele] c2 by auto
      then show ?thesis
      proof cases
        case 1
        with i2 \<open>df_insert 0 ''latitude'' (Value lat) ?df0 = Inr df1\<close> show ?thesis
          by (simp add: a)
      next
        case (2 df3)
        have c3: "columns df3 = [''latitude'', ''longitude'', ''elevation'']"
          using df_insert_columns [OF 2] c2 by simp
        then have "find_time_col df3 = Inl IndexError"
          by (simp add: find_time_col_def)
        with 2 i2 \<open>df_insert 0 ''latitude'' (Value lat) ?df0 = Inr df1\<close> show ?thesis
          by (simp add: a)
      qed
    qed
  qed
qed

lemma annotate_no_rows_scalars:
  assumes "py_get data ''latitude'' (params_get params ''latitude'') = Inr lat"
      and "py_get data ''longitude'' (params_get params ''longitude'') = Inr lon"
      and "py_get data ''elevation'' (params_get params ''elevation'') = Inr ele"
      and "is_scalar lat" "is_scalar lon" "is_scalar ele"
  shows "annotate data params location_name [] = Inl IndexError"
  using assms
  by (simp add: annotate_def DataFrame_def df_insert_scalar columns_def find_time_col_def)

text \<open>What a successful call of the whole function looks like.\<close>

lemma select_data_key_InrD:
  assumes "select_data_key data_key data = Inr wd"
  shows "\<exists>d. data = JObj d \<and> dict_get d data_key = Some wd"
  using assms
  by (cases data)
     (auto simp: select_data_key_def py_contains_def py_getitem_def thn_eq_Inr
           split: if_splits option.splits)

lemma reshape_InrD:
  assumes "reshape str_of data_key (JObj d) wd = Inr rows"
  shows "\<exists>series. wd = JObj series
           \<and> py_len (timestamps_of series) = Inr (length rows)
           \<and> list_all2 (\<lambda>i r. make_row str_of (units_of data_key d) series
                                (time_col_name str_of (timezone_of d)) (timestamps_of series) i = Inr r)
                [0..<length rows] rows"
proof -
  from assms obtain series where wd: "wd = JObj series"
    by (cases wd) (auto simp: reshape_def py_get_def thn_eq_Inr)
  from assms obtain n where
    n: "py_len (timestamps_of series) = Inr n" and
    b: "build_rows (make_row str_of (units_of data_key d) series
          (time_col_name str_of (timezone_of d)) (timestamps_of series)) [0..<n] [] = Inr rows"
    by (auto simp: reshape_def wd py_get_def thn_eq_Inr units_of_def timezone_of_def
          timestamps_of_def)
  from build_rows_Inr [OF b] have l: "list_all2 (\<lambda>i r. make_row str_of (units_of data_key d) series
          (time_col_name str_of (timezone_of d)) (timestamps_of series) i = Inr r) [0..<n] rows" .
  then have "length rows = n"
    by (auto dest: list_all2_lengthD)
  with wd n l show ?thesis by simp
qed

lemma rows_have_row_labels:
  assumes "list_all2 (\<lambda>i r. make_row str_of (units_of data_key d) series
                                (time_col_name str_of (timezone_of d)) ts i = Inr r) is rows"
      and "r \<in> set rows"
  shows "map fst r = row_labels str_of data_key d series"
proof -
  from assms obtain i where
    "make_row str_of (units_of data_key d) series (time_col_name str_of (timezone_of d)) ts i = Inr r"
    by (auto simp: list_all2_conv_all_nth in_set_conv_nth)
  then show ?thesis
    by (simp add: make_row_keys row_labels_def)
qed

lemma distinct_row_labels: "distinct (row_labels str_of data_key d series)"
  by (simp add: row_labels_def distinct_first_occ set_first_occ)

lemma get_weather_data_df_InrD:
  assumes ok: "get_weather_data_df http_get str_of base_url data_key export filename location_name
                 params fs = Inr (df, fs')"
  shows "\<exists>q d series rows.
           join_hourly params = Inr q \<and> http_get base_url q = Inr (JObj d)
         \<and> dict_get d data_key = Some (JObj series)
         \<and> rows \<noteq> []
         \<and> py_len (timestamps_of series) = Inr (length rows)
         \<and> list_all2 (\<lambda>i r. make_row str_of (units_of data_key d) series
                                (time_col_name str_of (timezone_of d)) (timestamps_of series) i = Inr r)
                [0..<length rows] rows
         \<and> columns (DataFrame rows) = row_labels str_of data_key d series
         \<and> (\<exists>clat clon cele.
               sanitize_column (coordinate d params ''latitude'') (map Pos [0..<length rows]) = Inr clat
             \<and> sanitize_column (coordinate d params ''longitude'') (map Pos [0..<length rows]) = Inr clon
             \<and> sanitize_column (coordinate d params ''elevation'') (map Pos [0..<length rows]) = Inr cele
             \<and> df = \<lparr>index = map Pos [0..<length rows],
                     cols = location_column location_name (length rows)
                            @ [(''latitude'', clat), (''longitude'', clon), (''elevation'', cele)]
                            @ cols (DataFrame rows)\<rparr>)
         \<and> fs' = export_csv export filename df fs"
proof -
  from ok obtain q data wd rows where
    q: "join_hourly params = Inr q" and
    data: "http_get base_url q = Inr data" and
    sel: "select_data_key data_key data = Inr wd" and
    resh: "reshape str_of data_key data wd = Inr rows" and
    ann: "annotate data q location_name rows = Inr df" and
    fs': "fs' = export_csv export filename df fs"
    by (auto simp: get_weather_data_df_def process_response_def thn_eq_Inr)
  from select_data_key_InrD [OF sel] obtain d where
    d: "data = JObj d" and wd: "dict_get d data_key = Some wd" by blast
  from reshape_InrD [OF resh [unfolded d]] obtain series where
    series: "wd = JObj series" and
    len: "py_len (timestamps_of series) = Inr (length rows)" and
    all: "list_all2 (\<lambda>i r. make_row str_of (units_of data_key d) series
                                (time_col_name str_of (timezone_of d)) (timestamps_of series) i = Inr r)
                [0..<length rows] rows"
    by blast
  have ne: "rows \<noteq> []"
    using ann annotate_no_rows_fails by blast
  have keys: "\<forall>r \<in> set rows. map fst r = row_labels str_of data_key d series"
    using rows_have_row_labels [OF all] by blast
  have cs: "columns (DataFrame rows) = row_labels str_of data_key d series"
    by (rule DataFrame_columns [OF ne keys distinct_row_labels])
  then obtain c rest where
    c0: "cols (DataFrame rows) = (time_col_name str_of (timezone_of d), c) # rest" and
    rest: "map fst rest = first_occ (filter (\<lambda>l. l \<noteq> time_col_name str_of (timezone_of d))
                  (var_labels str_of (units_of data_key d) series))"
    by (auto simp: columns_def row_labels_def)
  have fresh: "time_col_name str_of (timezone_of d) \<notin> fst ` set rest"
  proof -
    have "fst ` set rest = set (map fst rest)" by simp
    also have "\<dots> = set (filter (\<lambda>l. l \<noteq> time_col_name str_of (timezone_of d))
                  (var_labels str_of (units_of data_key d) series))"
      by (simp only: rest set_first_occ)
    finally show ?thesis by simp
  qed
  have co: "\<And>k. k \<noteq> ''hourly'' \<Longrightarrow>
      py_get (JObj d) k (params_get q k) = Inr (coordinate d params k)"
  proof -
    fix k :: string
    assume "k \<noteq> ''hourly''"
    then have "params_get q k = params_get params k"
      using join_hourly_other_keys [OF q] by (simp add: params_get_def)
    then show "py_get (JObj d) k (params_get q k) = Inr (coordinate d params k)"
      by (simp add: py_get_def coordinate_def)
  qed
  from annotate_InrD [OF ann [unfolded d] c0 prefix_time_col_name fresh]
  obtain lat lon ele clat clon cele where
    "py_get (JObj d) ''latitude'' (params_get q ''latitude'') = Inr lat"
    "py_get (JObj d) ''longitude'' (params_get q ''longitude'') = Inr lon"
    "py_get (JObj d) ''elevation'' (params_get q ''elevation'') = Inr ele"
    and sc: "sanitize_column lat (map Pos [0..<length rows]) = Inr clat"
      "sanitize_column lon (map Pos [0..<length rows]) = Inr clon"
      "sanitize_column ele (map Pos [0..<length rows]) = Inr cele"
    and df: "df = \<lparr>index = map Pos [0..<length rows],
                 cols = location_column location_name (length rows)
                        @ [(''latitude'', clat), (''longitude'', clon), (''elevation'', cele)]
                        @ cols (DataFrame rows)\<rparr>"
    by blast
  then have eqs: "lat = coordinate d params ''latitude''" "lon = coordinate d params ''longitude''"
    "ele = coordinate d params ''elevation''"
    by (simp_all add: co)
  show ?thesis
    using q data d wd series ne len all cs df fs' sc [unfolded eqs] by blast
qed

text \<open>The runs of the examples, computed by rewriting with the definitions.\<close>

lemmas run_defs =
  get_weather_data_df_def process_response_def join_hourly_def params_get_def dict_get_def
  dict_set_def select_data_key_def py_contains_def py_getitem_def reshape_def py_get_def
  py_len_def py_index_def make_row_def time_col_name_def label_of_def truthy_def py_format_def
  annotate_def DataFrame_def add_key_def df_insert_def ensure_valid_index_def
  sanitize_column_def place_def reindexed_def df_pop_def find_time_col_def columns_def
  column_def export_csv_def Let_def upt_rec

lemma scenario_run:
  "get_weather_data_df (\<lambda>_ _. Inr (JObj scenario_response)) (\<lambda>_. []) ''u'' ''hourly'' False None
     (Some ''Nashik'') [(''elevation'', JInt 5)] Map.empty
   = Inr (scenario_frame, Map.empty)"
  by (simp add: run_defs scenario_response_def scenario_series_def scenario_frame_def)

lemma merged_run:
  "get_weather_data_df (\<lambda>_ _. Inr (JObj merged_response)) (\<lambda>_. []) ''u'' ''hourly'' False None
     None [] Map.empty
   = Inr (merged_frame, Map.empty)"
  by (simp add: run_defs merged_response_def merged_series_def merged_frame_def)


lemma list_run:
  "get_weather_data_df (\<lambda>_ _. Inr (JObj bare_response)) (\<lambda>_. []) ''u'' ''hourly'' False None
     None [(''latitude'', JArr [JStr ''52.5''])] Map.empty
   = Inr (list_frame, Map.empty)"
  by (simp add: run_defs bare_response_def list_frame_def)


lemma misfit_run:
  "get_weather_data_df (\<lambda>_ _. Inr (JObj [(''hourly'', JObj [(''time'', JArr [])])])) (\<lambda>_. [])
     ''u'' ''hourly'' False None None
     [(''latitude'', JArr [JInt 1, JInt 2]), (''longitude'', JArr [JInt 3])] Map.empty
   = Inl ValueError"
  by (simp add: run_defs)

lemma rain_only_run:
  "get_weather_data_df (\<lambda>_ _. Inr (JObj [(''hourly'', JObj [(''rain'', JArr [JInt 1])])]))
     (\<lambda>_. []) ''u'' ''hourly'' False None None [(''latitude'', JInt 1)] Map.empty
   = Inl IndexError"
  by (simp add: run_defs)

section \<open>The request\<close>



text \<open>
  Claim C10. The join of lines 20-21 reads the keyword \<^verbatim>\<open>hourly\<close> only, whatever the data
  key is: under every other keyword the request carries the value the caller gave, a list
  included.
\<close>

theorem join_applies_to_hourly_only:
  assumes "join_hourly params = Inr q" and "k \<noteq> ''hourly''"
  shows "dict_get q k = dict_get params k
         \<and> get_weather_data_df http_get str_of base_url data_key export filename location_name
             params fs
           = thn (http_get base_url q)
               (process_response str_of data_key export filename location_name q fs)"
  using assms by (simp add: join_hourly_other_keys get_weather_data_df_def)

text \<open>A list under \<^verbatim>\<open>daily\<close> with the data key \<^verbatim>\<open>daily\<close>: the transport receives the list.\<close>

theorem join_applies_to_hourly_only_witness:
  "get_weather_data_df (\<lambda>_ q. Inl (RequestError (concat (map (py_format (\<lambda>_. ''?''))
       (case params_get q ''daily'' of JArr xs \<Rightarrow> xs | _ \<Rightarrow> [])))))
     (\<lambda>_. []) ''u'' ''daily'' False None None [(''daily'', JArr [JStr ''ab'', JStr ''cd''])]
     Map.empty
   = Inl (RequestError ''abcd'')"
proof -
  have a: "join_hourly [(''daily'', JArr [JStr ''ab'', JStr ''cd''])]
           = Inr [(''daily'', JArr [JStr ''ab'', JStr ''cd''])]"
    by (simp add: join_hourly_def params_get_def dict_get_def)
  have b: "''daily'' \<noteq> ''hourly''"
    by simp
  show ?thesis
    using join_applies_to_hourly_only
      [where http_get = "\<lambda>_ q. Inl (RequestError (concat (map (py_format (\<lambda>_. ''?''))
                 (case params_get q ''daily'' of JArr xs \<Rightarrow> xs | _ \<Rightarrow> []))))"
         and base_url = "''u''" and data_key = "''daily''", OF a b]
    by (simp add: params_get_def dict_get_def py_format_def)
qed

section \<open>The data key\<close>

text \<open>
  Claim C3. When the request succeeds with a JSON object that has no entry for the data
  key, the function raises the KeyError of line 28, whose message is the data key in
  quotes followed by \<^verbatim>\<open> not found in the response\<close>; no frame is returned.
\<close>

theorem missing_data_key_raises_KeyError:
  assumes "thn (join_hourly params) (http_get base_url) = Inr (JObj d)"
      and "dict_get d data_key = None"
  shows "get_weather_data_df http_get str_of base_url data_key export filename location_name
           params fs
         = Inl (KeyError (JStr (CHR 0x27 # data_key @ CHR 0x27 # '' not found in the response'')))"
proof -
  from assms(1) obtain q where q: "join_hourly params = Inr q" "http_get base_url q = Inr (JObj d)"
    by (auto simp: thn_eq_Inr)
  from assms(2) have "data_key \<notin> set (map fst d)"
    by (simp add: dict_get_def map_of_eq_None_iff)
  then have "select_data_key data_key (JObj d) = Inl (KeyError (JStr (not_found_message data_key)))"
    by (simp add: select_data_key_def py_contains_def)
  then show ?thesis
    using q by (simp add: get_weather_data_df_def process_response_def not_found_message_def)
qed

text \<open>A response with \<^verbatim>\<open>daily\<close> only, asked for \<^verbatim>\<open>hourly\<close>.\<close>

theorem missing_data_key_raises_KeyError_witness:
  "get_weather_data_df (\<lambda>_ _. Inr (JObj [(''daily'', JObj [])])) (\<lambda>_. []) ''u'' ''hourly'' False None
     None [] Map.empty
   = Inl (KeyError (JStr (CHR 0x27 # ''hourly'' @ CHR 0x27 # '' not found in the response'')))"
proof -
  have a: "thn (join_hourly []) ((\<lambda>_ _. Inr (JObj [(''daily'', JObj [])])) ''u'')
             = Inr (JObj [(''daily'', JObj [])])"
    by (simp add: join_hourly_def params_get_def dict_get_def)
  have b: "dict_get [(''daily'', JObj [])] ''hourly'' = None"
    by (simp add: dict_get_def)
  show ?thesis
    using missing_data_key_raises_KeyError
      [where http_get = "\<lambda>_ _. Inr (JObj [(''daily'', JObj [])])" and base_url = "''u''"
         and params = "[]" and d = "[(''daily'', JObj [])]" and data_key = "''hourly''", OF a b]
    by simp
qed

section \<open>Column labels\<close>

lemma label_in_var_labels:
  assumes "key \<in> set (map fst series)" and "key \<noteq> ''time''"
  shows "label_of str_of key (unit_of units key) \<in> set (var_labels str_of units series)"
  using assms by (auto simp: var_labels_def)

text \<open>
  Claim C4, as amended. In a row built by the loop, a variable other than \<^verbatim>\<open>time\<close> is
  stored under the variable name, one space and the unit in parentheses when the units
  mapping gives a non-empty string for the variable, and under the bare variable name when
  the mapping has no entry for it or gives the empty string.
\<close>

theorem label_is_name_space_unit:
  assumes row: "make_row str_of (JObj units) series tcol timestamps i = Inr row"
      and key: "key \<in> set (map fst series)" "key \<noteq> ''time''"
  shows "(\<forall>u. dict_get units key = Some (JStr u) \<and> u \<noteq> []
              \<longrightarrow> key @ '' ('' @ u @ '')'' \<in> set (map fst row))
         \<and> (dict_get units key = None \<or> dict_get units key = Some (JStr [])
              \<longrightarrow> key \<in> set (map fst row))"
proof -
  have "label_of str_of key (unit_of (JObj units) key) \<in> set (var_labels str_of (JObj units) series)"
    using key by (rule label_in_var_labels)
  then have l: "label_of str_of key (unit_of (JObj units) key) \<in> set (map fst row)"
    unfolding make_row_keys [OF row] by (auto simp: set_first_occ)
  have 1: "key @ '' ('' @ u @ '')'' \<in> set (map fst row)"
    if "dict_get units key = Some (JStr u)" "u \<noteq> []" for u
    using l that by (simp add: unit_of_def py_get_def label_of_def truthy_def py_format_def)
  have 2: "key \<in> set (map fst row)"
    if "dict_get units key = None \<or> dict_get units key = Some (JStr [])"
    using l that by (auto simp: unit_of_def py_get_def label_of_def truthy_def intro: rev_image_eqI)
  from 1 2 show ?thesis by blast
qed

text \<open>The row of the scenario: \<^verbatim>\<open>temperature_2m\<close> with the unit \<^verbatim>\<open>C\<close>.\<close>

theorem label_is_name_space_unit_witness:
  "make_row (\<lambda>_. []) (JObj [(''temperature_2m'', JStr ''C'')]) scenario_series ''time (UTC)''
     (JArr [JStr ''2024-01-01T00:00'']) 0
   = Inr [(''time (UTC)'', JStr ''2024-01-01T00:00''), (''temperature_2m (C)'', JFloat (53 / 10))]
   \<and> ''temperature_2m'' @ '' ('' @ ''C'' @ '')''
       \<in> set (map fst [(''time (UTC)'', JStr ''2024-01-01T00:00''),
                         (''temperature_2m (C)'', JFloat (53 / 10))])"
proof -
  have a: "make_row (\<lambda>_. []) (JObj [(''temperature_2m'', JStr ''C'')]) scenario_series ''time (UTC)''
     (JArr [JStr ''2024-01-01T00:00'']) 0
   = Inr [(''time (UTC)'', JStr ''2024-01-01T00:00''), (''temperature_2m (C)'', JFloat (53 / 10))]"
    by (simp add: run_defs scenario_series_def)
  have b: "''temperature_2m'' \<in> set (map fst scenario_series)"
    by (simp add: scenario_series_def)
  have c: "''temperature_2m'' \<noteq> ''time''"
    by simp
  have d: "dict_get [(''temperature_2m'', JStr ''C'')] ''temperature_2m'' = Some (JStr ''C'') \<and> ''C'' \<noteq> []"
    by (simp add: dict_get_def)
  from label_is_name_space_unit [OF a b c] d a show ?thesis
    by blast
qed

text \<open>
  Claim C4 as stated fails: the label the row uses has a space before the parenthesis,
  so the row has no key \<^verbatim>\<open>temperature_2m(C)\<close>.
\<close>

theorem stated_label_counterexample:
  "make_row (\<lambda>_. []) (JObj [(''temperature_2m'', JStr ''C'')]) scenario_series ''time (UTC)''
     (JArr [JStr ''2024-01-01T00:00'']) 0
   = Inr [(''time (UTC)'', JStr ''2024-01-01T00:00''), (''temperature_2m (C)'', JFloat (53 / 10))]
   \<and> stated_label ''temperature_2m'' (Some ''C'') = ''temperature_2m(C)''
   \<and> stated_label ''temperature_2m'' (Some ''C'')
       \<notin> set (map fst [(''time (UTC)'', JStr ''2024-01-01T00:00''),
                         (''temperature_2m (C)'', JFloat (53 / 10))])"
  by (simp add: run_defs scenario_series_def stated_label_def)

section \<open>The returned frame\<close>

lemma column_of_frame:
  assumes "k \<in> {''latitude'', ''longitude'', ''elevation''}"
  shows "map_of (location_column location_name n
                 @ [(''latitude'', clat), (''longitude'', clon), (''elevation'', cele)] @ rest) k
         = Some (if k = ''latitude'' then clat else if k = ''longitude'' then clon else cele)"
proof -
  have "map_of (location_column location_name n) k = None"
    using assms by (auto simp: location_column_def split: option.splits)
  with assms show ?thesis
    by (auto simp: map_add_def)
qed




text \<open>
  Claim C7. In a returned frame, each of the columns \<^verbatim>\<open>latitude\<close>, \<^verbatim>\<open>longitude\<close> and
  \<^verbatim>\<open>elevation\<close> is made from the response's top-level field of that name when the
  response has it, and otherwise from the keyword argument of that name, or from
  \<^verbatim>\<open>None\<close> when there is neither: a list gives its items, one per row, and a value that is
  neither a list nor a dictionary is repeated in every row.
\<close>

theorem coordinates_from_response_else_params:
  assumes req: "thn (join_hourly params) (http_get base_url) = Inr (JObj d)"
      and ok: "get_weather_data_df http_get str_of base_url data_key export filename location_name
                 params fs = Inr (df, fs')"
  shows "\<forall>k \<in> {''latitude'', ''longitude'', ''elevation''}.
           (let v = (case map_of d k of
                       Some x \<Rightarrow> x
                     | None \<Rightarrow> (case map_of params k of Some x \<Rightarrow> x | None \<Rightarrow> JNull))
            in (\<forall>xs. v = JArr xs \<longrightarrow> length xs = nrows df \<and> column df k = Some (map Cell xs))
             \<and> ((\<forall>xs. v \<noteq> JArr xs) \<and> (\<forall>m. v \<noteq> JObj m)
                  \<longrightarrow> column df k = Some (replicate (nrows df) (Cell v))))"
proof
  fix k :: string
  assume k: "k \<in> {''latitude'', ''longitude'', ''elevation''}"
  from get_weather_data_df_InrD [OF ok] obtain q d' rows clat clon cele where
    q: "join_hourly params = Inr q" "http_get base_url q = Inr (JObj d')" and
    sc: "sanitize_column (coordinate d' params ''latitude'') (map Pos [0..<length rows]) = Inr clat"
        "sanitize_column (coordinate d' params ''longitude'') (map Pos [0..<length rows]) = Inr clon"
        "sanitize_column (coordinate d' params ''elevation'') (map Pos [0..<length rows]) = Inr cele" and
    df: "df = \<lparr>index = map Pos [0..<length rows],
               cols = location_column location_name (length rows)
                      @ [(''latitude'', clat), (''longitude'', clon), (''elevation'', cele)]
                      @ cols (DataFrame rows)\<rparr>"
    by blast
  have d: "d' = d" using req q by simp
  define v where "v = (case map_of d k of
                       Some x \<Rightarrow> x
                     | None \<Rightarrow> (case map_of params k of Some x \<Rightarrow> x | None \<Rightarrow> JNull))"
  have v: "coordinate d params k = v"
    by (simp add: v_def coordinate_def params_get_def dict_get_def split: option.splits)
  define c where "c = (if k = ''latitude'' then clat else if k = ''longitude'' then clon else cele)"
  have col: "column df k = Some c"
    unfolding column_def df c_def using column_of_frame [OF k] by simp
  have san: "sanitize_column v (map Pos [0..<length rows]) = Inr c"
    using k sc by (auto simp: c_def d v [symmetric])
  have n: "nrows df = length rows"
    by (simp add: df nrows_def)
  have 1: "length xs = nrows df \<and> column df k = Some (map Cell xs)" if "v = JArr xs" for xs
    using san that by (simp add: sanitize_column_list col n)
  have 2: "column df k = Some (replicate (nrows df) (Cell v))"
    if "\<forall>xs. v \<noteq> JArr xs" "\<forall>m. v \<noteq> JObj m"
  proof -
    from that have "is_scalar v"
      by (cases v) (simp_all add: is_scalar_def)
    from sanitize_column_scalar [OF this] san show ?thesis
      by (simp add: col n)
  qed
  from 1 2 show "let v = (case map_of d k of
                       Some x \<Rightarrow> x
                     | None \<Rightarrow> (case map_of params k of Some x \<Rightarrow> x | None \<Rightarrow> JNull))
            in (\<forall>xs. v = JArr xs \<longrightarrow> length xs = nrows df \<and> column df k = Some (map Cell xs))
             \<and> ((\<forall>xs. v \<noteq> JArr xs) \<and> (\<forall>m. v \<noteq> JObj m)
                  \<longrightarrow> column df k = Some (replicate (nrows df) (Cell v)))"
    unfolding Let_def v_def [symmetric] by blast
qed

text \<open>
  In the scenario the response gives the latitude and the keyword arguments give the
  elevation; in the second call the keyword \<^verbatim>\<open>latitude\<close> is the list \<^verbatim>\<open>["52.5"]\<close> and
  there is no longitude at all.
\<close>

theorem coordinates_from_response_else_params_witness:
  "get_weather_data_df (\<lambda>_ _. Inr (JObj scenario_response)) (\<lambda>_. []) ''u'' ''hourly'' False None
     (Some ''Nashik'') [(''elevation'', JInt 5)] Map.empty
   = Inr (scenario_frame, Map.empty)
   \<and> column scenario_frame ''latitude'' = Some (replicate (nrows scenario_frame) (Cell (JFloat (2059 / 100))))
   \<and> column scenario_frame ''elevation'' = Some (replicate (nrows scenario_frame) (Cell (JInt 5)))
   \<and> get_weather_data_df (\<lambda>_ _. Inr (JObj bare_response)) (\<lambda>_. []) ''u'' ''hourly'' False None
       None [(''latitude'', JArr [JStr ''52.5''])] Map.empty
     = Inr (list_frame, Map.empty)
   \<and> column list_frame ''latitude'' = Some (map Cell [JStr ''52.5''])
   \<and> column list_frame ''longitude'' = Some (replicate (nrows list_frame) (Cell JNull))"
proof -
  have a: "thn (join_hourly [(''elevation'', JInt 5)]) ((\<lambda>_ _. Inr (JObj scenario_response)) ''u'')
           = Inr (JObj scenario_response)"
    by (simp add: join_hourly_def params_get_def dict_get_def)
  have b: "thn (join_hourly [(''latitude'', JArr [JStr ''52.5''])])
             ((\<lambda>_ _. Inr (JObj bare_response)) ''u'')
           = Inr (JObj bare_response)"
    by (simp add: join_hourly_def params_get_def dict_get_def)
  note s = coordinates_from_response_else_params
      [where http_get = "\<lambda>_ _. Inr (JObj scenario_response)" and base_url = "''u''",
       OF a scenario_run]
  note l = coordinates_from_response_else_params
      [where http_get = "\<lambda>_ _. Inr (JObj bare_response)" and base_url = "''u''",
       OF b list_run]
  from s [rule_format, of "''latitude''"]
  have 1: "column scenario_frame ''latitude''
           = Some (replicate (nrows scenario_frame) (Cell (JFloat (2059 / 100))))"
    by (simp add: scenario_response_def)
  from s [rule_format, of "''elevation''"]
  have 2: "column scenario_frame ''elevation''
           = Some (replicate (nrows scenario_frame) (Cell (JInt 5)))"
    by (simp add: scenario_response_def)
  from l [rule_format, of "''latitude''"]
  have 3: "column list_frame ''latitude'' = Some (map Cell [JStr ''52.5''])"
    by (simp add: bare_response_def)
  from l [rule_format, of "''longitude''"]
  have 4: "column list_frame ''longitude'' = Some (replicate (nrows list_frame) (Cell JNull))"
    by (simp add: bare_response_def)
  from 1 2 3 4 scenario_run list_run show ?thesis by blast
qed

text \<open>
  Claim C2, as amended. The columns of a returned frame are, in this order: \<^verbatim>\<open>location\<close>
  when the location name is a non-empty string, \<^verbatim>\<open>latitude\<close>, \<^verbatim>\<open>longitude\<close>,
  \<^verbatim>\<open>elevation\<close>, the time column, and then the labels of the other variables in the order
  of their first appearance in the response's series, a label that repeats an earlier one
  or the time column's label having no column of its own. When the labels are pairwise
  distinct and none is the time column's label, these are the labels of the other
  variables in response order.
\<close>

theorem column_order_with_merged_labels:
  assumes req: "thn (join_hourly params) (http_get base_url) = Inr (JObj d)"
      and key: "dict_get d data_key = Some (JObj series)"
      and ok: "get_weather_data_df http_get str_of base_url data_key export filename location_name
                 params fs = Inr (df, fs')"
  shows "columns df
         = (case location_name of
              Some name \<Rightarrow> (if name \<noteq> [] then [''location''] else [])
            | None \<Rightarrow> [])
           @ [''latitude'', ''longitude'', ''elevation'', time_col_name str_of (timezone_of d)]
           @ first_occ (filter (\<lambda>l. l \<noteq> time_col_name str_of (timezone_of d))
                          (var_labels str_of (units_of data_key d) series))
         \<and> (distinct (var_labels str_of (units_of data_key d) series)
              \<and> time_col_name str_of (timezone_of d)
                  \<notin> set (var_labels str_of (units_of data_key d) series)
            \<longrightarrow> first_occ (filter (\<lambda>l. l \<noteq> time_col_name str_of (timezone_of d))
                             (var_labels str_of (units_of data_key d) series))
                = var_labels str_of (units_of data_key d) series)"
proof -
  from get_weather_data_df_InrD [OF ok] obtain q d' series' rows clat clon cele where
    q: "join_hourly params = Inr q" "http_get base_url q = Inr (JObj d')" and
    s: "dict_get d' data_key = Some (JObj series')" and
    cs: "columns (DataFrame rows) = row_labels str_of data_key d' series'" and
    df: "df = \<lparr>index = map Pos [0..<length rows],
               cols = location_column location_name (length rows)
                      @ [(''latitude'', clat), (''longitude'', clon), (''elevation'', cele)]
                      @ cols (DataFrame rows)\<rparr>"
    by blast
  have d: "d' = d" using req q by simp
  with s key have series: "series' = series" by simp
  have "columns df = map fst (location_column location_name (length rows))
          @ [''latitude'', ''longitude'', ''elevation''] @ columns (DataFrame rows)"
    by (simp add: df columns_def)
  moreover have "map fst (location_column location_name (length rows))
      = (case location_name of
              Some name \<Rightarrow> (if name \<noteq> [] then [''location''] else [])
            | None \<Rightarrow> [])"
    by (simp add: location_column_def split: option.splits)
  ultimately have 1: "columns df
         = (case location_name of
              Some name \<Rightarrow> (if name \<noteq> [] then [''location''] else [])
            | None \<Rightarrow> [])
           @ [''latitude'', ''longitude'', ''elevation'', time_col_name str_of (timezone_of d)]
           @ first_occ (filter (\<lambda>l. l \<noteq> time_col_name str_of (timezone_of d))
                          (var_labels str_of (units_of data_key d) series))"
    by (simp add: cs d series row_labels_def)
  have 2: "first_occ (filter (\<lambda>l. l \<noteq> t) ls) = ls" if "distinct ls" "t \<notin> set ls" for t ls
  proof -
    from that(2) have "filter (\<lambda>l. l \<noteq> t) ls = ls"
      by (auto simp: filter_id_conv)
    with that(1) show ?thesis by (simp add: first_occ_distinct)
  qed
  from 1 2 show ?thesis by blast
qed

text \<open>
  The scenario of the specification, with the location name \<^verbatim>\<open>Nashik\<close>, and a call whose
  keyword \<^verbatim>\<open>latitude\<close> is a list.
\<close>

theorem column_order_with_merged_labels_witness:
  "get_weather_data_df (\<lambda>_ _. Inr (JObj scenario_response)) (\<lambda>_. []) ''u'' ''hourly'' False None
     (Some ''Nashik'') [(''elevation'', JInt 5)] Map.empty
   = Inr (scenario_frame, Map.empty)
   \<and> columns scenario_frame
     = [''location'', ''latitude'', ''longitude'', ''elevation'', ''time (UTC)'',
        ''temperature_2m (C)'']
   \<and> get_weather_data_df (\<lambda>_ _. Inr (JObj bare_response)) (\<lambda>_. []) ''u'' ''hourly'' False None
       None [(''latitude'', JArr [JStr ''52.5''])] Map.empty
     = Inr (list_frame, Map.empty)
   \<and> columns list_frame = [''latitude'', ''longitude'', ''elevation'', ''time (UTC)'']"
proof -
  have a: "thn (join_hourly [(''elevation'', JInt 5)]) ((\<lambda>_ _. Inr (JObj scenario_response)) ''u'')
           = Inr (JObj scenario_response)"
    by (simp add: join_hourly_def params_get_def dict_get_def)
  have b: "dict_get scenario_response ''hourly'' = Some (JObj scenario_series)"
    by (simp add: dict_get_def scenario_response_def)
  have c: "thn (join_hourly [(''latitude'', JArr [JStr ''52.5''])])
             ((\<lambda>_ _. Inr (JObj bare_response)) ''u'')
           = Inr (JObj bare_response)"
    by (simp add: join_hourly_def params_get_def dict_get_def)
  have d: "dict_get bare_response ''hourly'' = Some (JObj [(''time'', JArr [JStr ''t0''])])"
    by (simp add: dict_get_def bare_response_def)
  have 1: "columns scenario_frame
     = [''location'', ''latitude'', ''longitude'', ''elevation'', ''time (UTC)'',
        ''temperature_2m (C)'']"
    using column_order_with_merged_labels
      [where http_get = "\<lambda>_ _. Inr (JObj scenario_response)" and base_url = "''u''",
       OF a b scenario_run]
    by (simp add: time_col_name_def timezone_of_def units_of_def var_labels_def unit_of_def
          label_of_def py_get_def dict_get_def truthy_def py_format_def scenario_response_def
          scenario_series_def)
  have 2: "columns list_frame = [''latitude'', ''longitude'', ''elevation'', ''time (UTC)'']"
    using column_order_with_merged_labels
      [where http_get = "\<lambda>_ _. Inr (JObj bare_response)" and base_url = "''u''",
       OF c d list_run]
    by (simp add: time_col_name_def timezone_of_def units_of_def var_labels_def unit_of_def
          label_of_def py_get_def dict_get_def truthy_def py_format_def bare_response_def)
  from 1 2 scenario_run list_run show ?thesis by blast
qed

text \<open>
  Claim C2 as stated fails where two variables get the same label: the variables
  \<^verbatim>\<open>rain (mm)\<close> (no unit) and \<^verbatim>\<open>rain\<close> (unit \<^verbatim>\<open>mm\<close>) are both written under the key
  \<^verbatim>\<open>rain (mm)\<close> of the row, so the frame has one column for the two of them.
\<close>

theorem stated_column_order_counterexample:
  "get_weather_data_df (\<lambda>_ _. Inr (JObj merged_response)) (\<lambda>_. []) ''u'' ''hourly'' False None
     None [] Map.empty
   = Inr (merged_frame, Map.empty)
   \<and> columns merged_frame
     = [''latitude'', ''longitude'', ''elevation'', ''time (UTC)'', ''rain (mm)'']
   \<and> stated_column_order None (time_col_name (\<lambda>_. []) (timezone_of merged_response))
       (var_labels (\<lambda>_. []) (units_of ''hourly'' merged_response) merged_series)
     = [''latitude'', ''longitude'', ''elevation'', ''time (UTC)'', ''rain (mm)'', ''rain (mm)'']
   \<and> columns merged_frame
     \<noteq> stated_column_order None (time_col_name (\<lambda>_. []) (timezone_of merged_response))
         (var_labels (\<lambda>_. []) (units_of ''hourly'' merged_response) merged_series)"
proof -
  have 1: "columns merged_frame
     = [''latitude'', ''longitude'', ''elevation'', ''time (UTC)'', ''rain (mm)'']"
    by (simp add: columns_def merged_frame_def)
  have 2: "stated_column_order None (time_col_name (\<lambda>_. []) (timezone_of merged_response))
       (var_labels (\<lambda>_. []) (units_of ''hourly'' merged_response) merged_series)
     = [''latitude'', ''longitude'', ''elevation'', ''time (UTC)'', ''rain (mm)'', ''rain (mm)'']"
    by (simp add: stated_column_order_def time_col_name_def timezone_of_def units_of_def
          var_labels_def unit_of_def label_of_def py_get_def dict_get_def truthy_def py_format_def
          merged_response_def merged_series_def)
  from merged_run 1 2 show ?thesis by simp
qed

section \<open>Failures of the reshaping\<close>

lemma params_get_join_hourly:
  "join_hourly params = Inr q \<Longrightarrow> k \<noteq> ''hourly'' \<Longrightarrow> params_get q k = params_get params k"
  by (simp add: params_get_def join_hourly_other_keys)

lemma py_get_coordinate:
  assumes "join_hourly params = Inr q" and "k \<noteq> ''hourly''"
  shows "py_get (JObj d) k (params_get q k) = Inr (coordinate d params k)"
  using params_get_join_hourly [OF assms] by (simp add: py_get_def coordinate_def)

lemma reshape_JObj:
  "reshape str_of data_key (JObj d) (JObj series)
   = thn (py_len (timestamps_of series)) (\<lambda>n.
       build_rows (make_row str_of (units_of data_key d) series
         (time_col_name str_of (timezone_of d)) (timestamps_of series)) [0..<n] [])"
  by (simp add: reshape_def py_get_def units_of_def timezone_of_def timestamps_of_def)

lemma select_data_key_JObj:
  "dict_get d data_key = Some wd \<Longrightarrow> select_data_key data_key (JObj d) = Inr wd"
  by (auto simp: select_data_key_def py_contains_def py_getitem_def dict_get_def
        dest!: map_of_SomeD intro: rev_image_eqI)

text \<open>
  Claim C9, as amended. When the series under the data key have no \<^verbatim>\<open>time\<close> entry, or an
  empty \<^verbatim>\<open>time\<close> array, the loop builds no row, the frame of the rows has no column, and
  the function returns no frame: it raises IndexError (line 57 finds no column whose label
  starts with \<^verbatim>\<open>time\<close>) or, before that, the ValueError of an insert of lines 53-55. When
  none of the three coordinate values is a list or a dictionary, it is the IndexError.
\<close>

theorem no_timestamps_raises_IndexError_or_ValueError:
  assumes req: "thn (join_hourly params) (http_get base_url) = Inr (JObj d)"
      and key: "dict_get d data_key = Some (JObj series)"
      and none: "dict_get series ''time'' = None \<or> dict_get series ''time'' = Some (JArr [])"
  shows "reshape str_of data_key (JObj d) (JObj series) = Inr []
         \<and> columns (DataFrame []) = []
         \<and> (get_weather_data_df http_get str_of base_url data_key export filename location_name
               params fs = Inl IndexError
            \<or> get_weather_data_df http_get str_of base_url data_key export filename location_name
               params fs = Inl ValueError)
         \<and> ((\<forall>k \<in> {''latitude'', ''longitude'', ''elevation''}.
                is_scalar (case map_of d k of
                             Some x \<Rightarrow> x
                           | None \<Rightarrow> (case map_of params k of Some x \<Rightarrow> x | None \<Rightarrow> JNull)))
            \<longrightarrow> get_weather_data_df http_get str_of base_url data_key export filename location_name
                  params fs = Inl IndexError)"
proof -
  from req obtain q where q: "join_hourly params = Inr q" "http_get base_url q = Inr (JObj d)"
    by (auto simp: thn_eq_Inr)
  from none have "timestamps_of series = JArr []"
    by (auto simp: timestamps_of_def)
  then have rows: "reshape str_of data_key (JObj d) (JObj series) = Inr []"
    by (simp add: reshape_JObj py_len_def)
  have run: "get_weather_data_df http_get str_of base_url data_key export filename location_name
             params fs = thn (annotate (JObj d) q location_name [])
                           (\<lambda>df. Inr (df, export_csv export filename df fs))"
    by (simp add: get_weather_data_df_def process_response_def q select_data_key_JObj [OF key]
          rows)
  have co: "py_get (JObj d) ''latitude'' (params_get q ''latitude'')
              = Inr (coordinate d params ''latitude'')"
    "py_get (JObj d) ''longitude'' (params_get q ''longitude'')
              = Inr (coordinate d params ''longitude'')"
    "py_get (JObj d) ''elevation'' (params_get q ''elevation'')
              = Inr (coordinate d params ''elevation'')"
    by (simp_all add: py_get_coordinate [OF q(1)])
  have 1: "get_weather_data_df http_get str_of base_url data_key export filename location_name
               params fs = Inl IndexError
            \<or> get_weather_data_df http_get str_of base_url data_key export filename location_name
               params fs = Inl ValueError"
    using annotate_no_rows_error [OF co, of location_name] by (auto simp: run)
  have 2: "get_weather_data_df http_get str_of base_url data_key export filename location_name
                  params fs = Inl IndexError"
    if sc: "\<forall>k \<in> {''latitude'', ''longitude'', ''elevation''}.
                is_scalar (case map_of d k of
                             Some x \<Rightarrow> x
                           | None \<Rightarrow> (case map_of params k of Some x \<Rightarrow> x | None \<Rightarrow> JNull))"
  proof -
    have "coordinate d params k = (case map_of d k of
                             Some x \<Rightarrow> x
                           | None \<Rightarrow> (case map_of params k of Some x \<Rightarrow> x | None \<Rightarrow> JNull))" for k
      by (simp add: coordinate_def params_get_def dict_get_def split: option.splits)
    with sc have "is_scalar (coordinate d params ''latitude'')"
      "is_scalar (coordinate d params ''longitude'')"
      "is_scalar (coordinate d params ''elevation'')"
      by simp_all
    from annotate_no_rows_scalars [OF co this] show ?thesis
      by (simp add: run)
  qed
  from rows 1 2 show ?thesis
    by (simp add: columns_def DataFrame_def)
qed

text \<open>
  A response whose hourly series have no \<^verbatim>\<open>time\<close> entry, with a number as latitude.
\<close>

theorem no_timestamps_raises_IndexError_or_ValueError_witness:
  "get_weather_data_df (\<lambda>_ _. Inr (JObj [(''hourly'', JObj [(''rain'', JArr [JInt 1])])]))
     (\<lambda>_. []) ''u'' ''hourly'' False None None [(''latitude'', JInt 1)] Map.empty
   = Inl IndexError"
proof -
  have a: "thn (join_hourly [(''latitude'', JInt 1)])
             ((\<lambda>_ _. Inr (JObj [(''hourly'', JObj [(''rain'', JArr [JInt 1])])])) ''u'')
           = Inr (JObj [(''hourly'', JObj [(''rain'', JArr [JInt 1])])])"
    by (simp add: join_hourly_def params_get_def dict_get_def)
  have b: "dict_get [(''hourly'', JObj [(''rain'', JArr [JInt 1])])] ''hourly''
           = Some (JObj [(''rain'', JArr [JInt 1])])"
    by (simp add: dict_get_def)
  have c: "dict_get [(''rain'', JArr [JInt 1])] ''time'' = None
           \<or> dict_get [(''rain'', JArr [JInt 1])] ''time'' = Some (JArr [])"
    by (simp add: dict_get_def)
  have d: "\<forall>k \<in> {''latitude'', ''longitude'', ''elevation''}.
             is_scalar (case map_of [(''hourly'', JObj [(''rain'', JArr [JInt 1])])] k of
                          Some x \<Rightarrow> x
                        | None \<Rightarrow> (case map_of [(''latitude'', JInt 1)] k of
                                     Some x \<Rightarrow> x | None \<Rightarrow> JNull))"
    by (simp add: is_scalar_def)
  show ?thesis
    using no_timestamps_raises_IndexError_or_ValueError
      [where http_get = "\<lambda>_ _. Inr (JObj [(''hourly'', JObj [(''rain'', JArr [JInt 1])])])"
         and base_url = "''u''", OF a b c] d
    by blast
qed

text \<open>
  Claim C9 as stated fails for lists that do not fit: with an empty \<^verbatim>\<open>time\<close> array and
  the keywords \<^verbatim>\<open>latitude=[1, 2]\<close> and \<^verbatim>\<open>longitude=[3]\<close>, the first insert gives the
  frame two rows and the second raises ValueError before line 57 is reached.
\<close>

theorem misfitting_lists_counterexample:
  "dict_get [(''time'', JArr [])] ''time'' = Some (JArr [])
   \<and> get_weather_data_df (\<lambda>_ _. Inr (JObj [(''hourly'', JObj [(''time'', JArr [])])])) (\<lambda>_. [])
       ''u'' ''hourly'' False None None
       [(''latitude'', JArr [JInt 1, JInt 2]), (''longitude'', JArr [JInt 3])] Map.empty
     = Inl ValueError
   \<and> get_weather_data_df (\<lambda>_ _. Inr (JObj [(''hourly'', JObj [(''time'', JArr [])])])) (\<lambda>_. [])
       ''u'' ''hourly'' False None None
       [(''latitude'', JArr [JInt 1, JInt 2]), (''longitude'', JArr [JInt 3])] Map.empty
     \<noteq> Inl IndexError"
  using misfit_run by (simp add: dict_get_def)

lemma fill_row_succeeds:
  assumes "\<forall>(k, v) \<in> set series. k \<noteq> ''time'' \<longrightarrow> (\<exists>ys. v = JArr ys \<and> i < length ys)"
  shows "\<exists>row'. fill_row str_of (JObj units) i series row = Inr row'"
  using assms
proof (induction series arbitrary: row)
  case Nil
  show ?case by simp
next
  case (Cons p series)
  obtain k v where p: "p = (k, v)" by (cases p)
  from Cons.prems have rest:
    "\<forall>(k, v) \<in> set series. k \<noteq> ''time'' \<longrightarrow> (\<exists>ys. v = JArr ys \<and> i < length ys)"
    by simp
  show ?case
  proof (cases "k = ''time''")
    case True
    with Cons.IH [OF rest] p show ?thesis by simp
  next
    case False
    with Cons.prems p obtain ys where "v = JArr ys" "i < length ys" by auto
    with Cons.IH [OF rest] False p show ?thesis
      by (simp add: py_get_def py_index_def)
  qed
qed

lemma fill_row_IndexError:
  assumes "\<forall>(k, v) \<in> set series. k \<noteq> ''time'' \<longrightarrow> (\<exists>ys. v = JArr ys)"
      and "\<exists>(k, v) \<in> set series. k \<noteq> ''time'' \<and> (\<exists>ys. v = JArr ys \<and> length ys \<le> i)"
  shows "fill_row str_of (JObj units) i series row = Inl IndexError"
  using assms
proof (induction series arbitrary: row)
  case Nil
  then show ?case by simp
next
  case (Cons p series)
  obtain k v where p: "p = (k, v)" by (cases p)
  from Cons.prems(1) have rest: "\<forall>(k, v) \<in> set series. k \<noteq> ''time'' \<longrightarrow> (\<exists>ys. v = JArr ys)"
    by simp
  show ?case
  proof (cases "k \<noteq> ''time'' \<and> (\<exists>ys. v = JArr ys \<and> length ys \<le> i)")
    case True
    with p show ?thesis by (auto simp: py_get_def py_index_def)
  next
    case False
    with Cons.prems(2) p have short:
      "\<exists>(k, v) \<in> set series. k \<noteq> ''time'' \<and> (\<exists>ys. v = JArr ys \<and> length ys \<le> i)"
      by auto
    show ?thesis
    proof (cases "k = ''time''")
      case True
      with Cons.IH [OF rest short] p show ?thesis by simp
    next
      case k: False
      with Cons.prems(1) p obtain ys where ys: "v = JArr ys" by auto
      with False k have "i < length ys" by auto
      with Cons.IH [OF rest short] p k ys show ?thesis
        by (simp add: py_get_def py_index_def)
    qed
  qed
qed

lemma build_rows_first_error:
  assumes "\<forall>i \<in> set is. (\<exists>r. mk i = Inr r) \<or> mk i = Inl e"
      and "\<exists>i \<in> set is. mk i = Inl e"
  shows "build_rows mk is rows = Inl e"
  using assms
proof (induction "is" arbitrary: rows)
  case Nil
  then show ?case by simp
next
  case (Cons i "is")
  show ?case
  proof (cases "mk i")
    case (Inl e')
    with Cons.prems(1) have "e' = e" by auto
    with Inl show ?thesis by simp
  next
    case (Inr r)
    with Cons.prems have "\<forall>i \<in> set is. (\<exists>r. mk i = Inr r) \<or> mk i = Inl e"
      "\<exists>i \<in> set is. mk i = Inl e"
      by auto
    from Cons.IH [OF this] Inr show ?thesis by simp
  qed
qed

text \<open>
  Claim C8. When every series is an array, the units are a dictionary and the array of
  some variable is shorter than the array of timestamps, the function raises IndexError.
  When that array is a shortest one, the rows of all indices below its length are built
  (nothing checks the lengths beforehand) and the row at its length is the one that fails.
\<close>

theorem short_series_raises_IndexError:
  assumes req: "thn (join_hourly params) (http_get base_url) = Inr (JObj d)"
      and key: "dict_get d data_key = Some (JObj series)"
      and ts: "dict_get series ''time'' = Some (JArr ts)"
      and units: "units_of data_key d = JObj units"
      and arrays: "\<forall>(k, v) \<in> set series. k \<noteq> ''time'' \<longrightarrow> (\<exists>ys. v = JArr ys)"
      and short: "(k, JArr xs) \<in> set series" "k \<noteq> ''time''" "length xs < length ts"
  shows "get_weather_data_df http_get str_of base_url data_key export filename location_name
           params fs = Inl IndexError
         \<and> ((\<forall>(k', v) \<in> set series. k' \<noteq> ''time'' \<longrightarrow> (\<exists>ys. v = JArr ys \<and> length xs \<le> length ys))
            \<longrightarrow> (\<forall>i < length xs. \<exists>row.
                    make_row str_of (JObj units) series (time_col_name str_of (timezone_of d))
                      (JArr ts) i = Inr row)
                \<and> make_row str_of (JObj units) series (time_col_name str_of (timezone_of d))
                    (JArr ts) (length xs) = Inl IndexError)"
proof -
  let ?mk = "make_row str_of (JObj units) series (time_col_name str_of (timezone_of d)) (JArr ts)"
  from req obtain q where q: "join_hourly params = Inr q" "http_get base_url q = Inr (JObj d)"
    by (auto simp: thn_eq_Inr)
  have tso: "timestamps_of series = JArr ts"
    using ts by (simp add: timestamps_of_def)
  have mk: "?mk i = fill_row str_of (JObj units) i series
                      [(time_col_name str_of (timezone_of d), ts ! i)]"
    if "i < length ts" for i
    using that by (simp add: make_row_def py_index_def)
  have fail: "?mk i = Inl IndexError"
    if "i < length ts" "\<exists>(k, v) \<in> set series. k \<noteq> ''time'' \<and> (\<exists>ys. v = JArr ys \<and> length ys \<le> i)" for i
    using that by (simp add: mk fill_row_IndexError [OF arrays])
  have good: "\<exists>row. ?mk i = Inr row"
    if "i < length ts" "\<forall>(k, v) \<in> set series. k \<noteq> ''time'' \<longrightarrow> (\<exists>ys. v = JArr ys \<and> i < length ys)" for i
    using that by (simp add: mk fill_row_succeeds)
  have either: "(\<exists>row. ?mk i = Inr row) \<or> ?mk i = Inl IndexError" if "i < length ts" for i
  proof (cases "\<exists>(k, v) \<in> set series. k \<noteq> ''time'' \<and> (\<exists>ys. v = JArr ys \<and> length ys \<le> i)")
    case True
    with that show ?thesis by (simp add: fail)
  next
    case False
    with arrays have "\<forall>(k, v) \<in> set series. k \<noteq> ''time'' \<longrightarrow> (\<exists>ys. v = JArr ys \<and> i < length ys)"
      by fastforce
    with that show ?thesis by (simp add: good)
  qed
  have at: "?mk (length xs) = Inl IndexError"
    using short by (intro fail) auto
  have "build_rows ?mk [0..<length ts] [] = Inl IndexError"
  proof (rule build_rows_first_error)
    show "\<forall>i \<in> set [0..<length ts]. (\<exists>r. ?mk i = Inr r) \<or> ?mk i = Inl IndexError"
      using either by simp
    show "\<exists>i \<in> set [0..<length ts]. ?mk i = Inl IndexError"
      using at short(3) by auto
  qed
  then have "reshape str_of data_key (JObj d) (JObj series) = Inl IndexError"
    by (simp add: reshape_JObj tso units py_len_def)
  then have 1: "get_weather_data_df http_get str_of base_url data_key export filename location_name
           params fs = Inl IndexError"
    by (simp add: get_weather_data_df_def process_response_def q select_data_key_JObj [OF key])
  have 2: "\<exists>row. ?mk i = Inr row"
    if "\<forall>(k', v) \<in> set series. k' \<noteq> ''time'' \<longrightarrow> (\<exists>ys. v = JArr ys \<and> length xs \<le> length ys)"
       "i < length xs" for i
  proof (rule good)
    show "i < length ts" using that(2) short(3) by simp
    show "\<forall>(k, v) \<in> set series. k \<noteq> ''time'' \<longrightarrow> (\<exists>ys. v = JArr ys \<and> i < length ys)"
      using that by fastforce
  qed
  from 1 2 at show ?thesis by blast
qed

text \<open>Two timestamps and one value of \<^verbatim>\<open>rain\<close>: row 0 is built, row 1 fails.\<close>

theorem short_series_raises_IndexError_witness:
  "get_weather_data_df (\<lambda>_ _. Inr (JObj [(''hourly'', JObj short_series)])) (\<lambda>_. []) ''u''
     ''hourly'' False None None [] Map.empty
   = Inl IndexError
   \<and> (\<exists>row. make_row (\<lambda>_. []) (JObj []) short_series ''time (UTC)''
               (JArr [JStr ''t0'', JStr ''t1'']) 0 = Inr row)
   \<and> make_row (\<lambda>_. []) (JObj []) short_series ''time (UTC)''
       (JArr [JStr ''t0'', JStr ''t1'']) 1 = Inl IndexError"
proof -
  have a: "thn (join_hourly []) ((\<lambda>_ _. Inr (JObj [(''hourly'', JObj short_series)])) ''u'')
           = Inr (JObj [(''hourly'', JObj short_series)])"
    by (simp add: join_hourly_def params_get_def dict_get_def)
  have b: "dict_get [(''hourly'', JObj short_series)] ''hourly'' = Some (JObj short_series)"
    by (simp add: dict_get_def)
  have c: "dict_get short_series ''time'' = Some (JArr [JStr ''t0'', JStr ''t1''])"
    by (simp add: dict_get_def short_series_def)
  have d: "units_of ''hourly'' [(''hourly'', JObj short_series)] = JObj []"
    by (simp add: units_of_def dict_get_def)
  have e: "\<forall>(k, v) \<in> set short_series. k \<noteq> ''time'' \<longrightarrow> (\<exists>ys. v = JArr ys)"
    by (simp add: short_series_def)
  have f: "(''rain'', JArr [JInt 1]) \<in> set short_series"
    by (simp add: short_series_def)
  have g: "''rain'' \<noteq> ''time''"
    by simp
  have h: "length [JInt 1] < length [JStr ''t0'', JStr ''t1'']"
    by simp
  have i: "\<forall>(k', v) \<in> set short_series. k' \<noteq> ''time''
             \<longrightarrow> (\<exists>ys. v = JArr ys \<and> length [JInt 1] \<le> length ys)"
    by (simp add: short_series_def)
  have t: "time_col_name (\<lambda>_. []) (timezone_of [(''hourly'', JObj short_series)]) = ''time (UTC)''"
    by (simp add: time_col_name_def timezone_of_def dict_get_def truthy_def py_format_def)
  show ?thesis
    using short_series_raises_IndexError
      [where http_get = "\<lambda>_ _. Inr (JObj [(''hourly'', JObj short_series)])" and base_url = "''u''"
         and str_of = "\<lambda>_. []", OF a b c d e f g h] i
    by (simp add: t)
qed

section \<open>The driver\<close>

lemma export_off_keeps_files:
  assumes "get_weather_data_df http_get str_of base_url data_key False filename location_name
             params fs = Inr (df, fs')"
  shows "fs' = fs"
  using assms
  by (auto simp: get_weather_data_df_def process_response_def thn_eq_Inr export_csv_def
        split: option.splits)

lemma call_for_location_InrD:
  assumes "call_for_location http_get str_of base_url data_key params name lat lon fs = Inr (df, fs')"
  shows "fs' = fs
         \<and> get_weather_data_df http_get str_of base_url data_key False
             (case dict_get params ''filename'' of Some (JStr f) \<Rightarrow> Some f | _ \<Rightarrow> None)
             (Some name)
             ((''latitude'', lat) # (''longitude'', lon) # AList.delete ''filename'' params) fs
           = Inr (df, fs)"
proof -
  from assms have run: "get_weather_data_df http_get str_of base_url data_key False
             (case dict_get params ''filename'' of Some (JStr f) \<Rightarrow> Some f | _ \<Rightarrow> None)
             (Some name)
             ((''latitude'', lat) # (''longitude'', lon) # AList.delete ''filename'' params) fs
           = Inr (df, fs')"
    by (simp add: call_for_location_def split: if_splits)
  from export_off_keeps_files [OF run] run show ?thesis by simp
qed

lemma locations_loop_InrD:
  assumes "locations_loop net str_of base_url data_key params k locs acc out fs
           = (out', Inr (dfs, fs'))"
  shows "fs' = fs
         \<and> (\<exists>new. dfs = acc @ new \<and> length new = length locs
              \<and> (\<forall>i < length locs.
                    call_for_location (net (k + i)) str_of base_url data_key params
                      (fst (locs ! i)) (fst (snd (locs ! i))) (snd (snd (locs ! i))) fs
                    = Inr (new ! i, fs)))"
  using assms
proof (induction locs arbitrary: k acc out)
  case Nil
  then show ?case by simp
next
  case (Cons loc locs)
  obtain name lat lon where loc: "loc = (name, lat, lon)" by (cases loc)
  from Cons.prems loc obtain df fs1 where
    call: "call_for_location (net k) str_of base_url data_key params name lat lon fs = Inr (df, fs1)"
    and rest: "locations_loop net str_of base_url data_key params (Suc k) locs (acc @ [df])
                 (out @ [progress_line str_of name lat lon]) fs1 = (out', Inr (dfs, fs'))"
    by (auto simp: Let_def split: sum.splits)
  from call_for_location_InrD [OF call] have fs1: "fs1 = fs" by simp
  from Cons.IH [OF rest [unfolded fs1]] obtain new where
    new: "fs' = fs" "dfs = (acc @ [df]) @ new" "length new = length locs"
    "\<forall>i < length locs.
        call_for_location (net (Suc k + i)) str_of base_url data_key params
          (fst (locs ! i)) (fst (snd (locs ! i))) (snd (snd (locs ! i))) fs
        = Inr (new ! i, fs)"
    by blast
  have "\<forall>i < length (loc # locs).
          call_for_location (net (k + i)) str_of base_url data_key params
            (fst ((loc # locs) ! i)) (fst (snd ((loc # locs) ! i))) (snd (snd ((loc # locs) ! i))) fs
          = Inr ((df # new) ! i, fs)"
  proof (intro allI impI)
    fix i
    assume "i < length (loc # locs)"
    then show "call_for_location (net (k + i)) str_of base_url data_key params
            (fst ((loc # locs) ! i)) (fst (snd ((loc # locs) ! i))) (snd (snd ((loc # locs) ! i))) fs
          = Inr ((df # new) ! i, fs)"
      using call new(4) loc fs1 by (cases i) simp_all
  qed
  with new show ?case
    by (intro conjI exI [of _ "df # new"]) simp_all
qed

text \<open>
  Claim C6. When the driver returns, it returns one frame per location, in the order of
  the locations: the \<open>i\<close>-th frame is what \<open>get_weather_data_df\<close> returns for the \<open>i\<close>-th
  request with export off, the location's name as the location name, and its latitude and
  longitude put in front of the shared keywords. No file is written, and the result is
  the same for every value of the driver's export flag.
\<close>

theorem one_frame_per_location:
  assumes "get_weather_data_multiple_locations net str_of base_url locations data_key export
             params fs = (out, Inr (dfs, fs'))"
  shows "length dfs = length locations
         \<and> fs' = fs
         \<and> (\<forall>i < length locations.
               get_weather_data_df (net i) str_of base_url data_key False
                 (case dict_get params ''filename'' of Some (JStr f) \<Rightarrow> Some f | _ \<Rightarrow> None)
                 (Some (fst (locations ! i)))
                 ((''latitude'', fst (snd (locations ! i)))
                  # (''longitude'', snd (snd (locations ! i)))
                  # AList.delete ''filename'' params) fs
               = Inr (dfs ! i, fs))
         \<and> (\<forall>export'. get_weather_data_multiple_locations net str_of base_url locations data_key
               export' params fs = (out, Inr (dfs, fs')))"
proof -
  from assms have loop: "locations_loop net str_of base_url data_key params 0 locations [] [] fs
                         = (out, Inr (dfs, fs'))"
    by (simp add: get_weather_data_multiple_locations_def)
  from locations_loop_InrD [OF loop] have
    fs: "fs' = fs" and len: "length dfs = length locations" and
    calls: "\<forall>i < length locations.
              call_for_location (net i) str_of base_url data_key params
                (fst (locations ! i)) (fst (snd (locations ! i))) (snd (snd (locations ! i))) fs
              = Inr (dfs ! i, fs)"
    by auto
  have "\<forall>i < length locations.
               get_weather_data_df (net i) str_of base_url data_key False
                 (case dict_get params ''filename'' of Some (JStr f) \<Rightarrow> Some f | _ \<Rightarrow> None)
                 (Some (fst (locations ! i)))
                 ((''latitude'', fst (snd (locations ! i)))
                  # (''longitude'', snd (snd (locations ! i)))
                  # AList.delete ''filename'' params) fs
               = Inr (dfs ! i, fs)"
    using calls call_for_location_InrD by blast
  moreover have "\<forall>export'. get_weather_data_multiple_locations net str_of base_url locations
      data_key export' params fs = (out, Inr (dfs, fs'))"
    using loop by (simp add: get_weather_data_multiple_locations_def)
  ultimately show ?thesis
    using fs len by blast
qed

lemma bare_run:
  "get_weather_data_multiple_locations (\<lambda>_ _ _. Inr (JObj bare_response)) (\<lambda>_. ''?'') ''u''
     [(''A'', JInt 1, JInt 2), (''B'', JInt 3, JInt 4)] ''hourly'' True [] Map.empty
   = ([''Fetching data for A: (?, ?)'', ''Fetching data for B: (?, ?)''],
      Inr ([bare_frame ''A'' 1 2, bare_frame ''B'' 3 4], Map.empty))"
  by (simp add: get_weather_data_multiple_locations_def call_for_location_def progress_line_def
        run_defs bare_response_def bare_frame_def)

text \<open>
  The locations \<^verbatim>\<open>{"A": (1, 2), "B": (3, 4)}\<close> with the export flag on, against a
  response that carries no coordinates of its own.
\<close>

theorem one_frame_per_location_witness:
  "length [bare_frame ''A'' 1 2, bare_frame ''B'' 3 4]
     = length [(''A'', JInt 1, JInt 2), (''B'', JInt 3, JInt 4)]
   \<and> get_weather_data_df (\<lambda>_ _. Inr (JObj bare_response)) (\<lambda>_. ''?'') ''u'' ''hourly'' False None
       (Some ''B'') [(''latitude'', JInt 3), (''longitude'', JInt 4)] Map.empty
     = Inr (bare_frame ''B'' 3 4, Map.empty)
   \<and> get_weather_data_multiple_locations (\<lambda>_ _ _. Inr (JObj bare_response)) (\<lambda>_. ''?'') ''u''
       [(''A'', JInt 1, JInt 2), (''B'', JInt 3, JInt 4)] ''hourly'' False [] Map.empty
     = ([''Fetching data for A: (?, ?)'', ''Fetching data for B: (?, ?)''],
        Inr ([bare_frame ''A'' 1 2, bare_frame ''B'' 3 4], Map.empty))"
proof -
  note t = one_frame_per_location [OF bare_run]
  from t have 1: "length [bare_frame ''A'' 1 2, bare_frame ''B'' 3 4]
     = length [(''A'', JInt 1, JInt 2), (''B'', JInt 3, JInt 4)]"
    by blast
  from t have "\<forall>i < length [(''A'', JInt 1, JInt 2), (''B'', JInt 3, JInt 4)].
      get_weather_data_df (\<lambda>_ _. Inr (JObj bare_response)) (\<lambda>_. ''?'') ''u'' ''hourly'' False
        (case dict_get [] ''filename'' of Some (JStr f) \<Rightarrow> Some f | _ \<Rightarrow> None)
        (Some (fst ([(''A'', JInt 1, JInt 2), (''B'', JInt 3, JInt 4)] ! i)))
        ((''latitude'', fst (snd ([(''A'', JInt 1, JInt 2), (''B'', JInt 3, JInt 4)] ! i)))
         # (''longitude'', snd (snd ([(''A'', JInt 1, JInt 2), (''B'', JInt 3, JInt 4)] ! i)))
         # AList.delete ''filename'' []) Map.empty
      = Inr ([bare_frame ''A'' 1 2, bare_frame ''B'' 3 4] ! i, Map.empty)"
    by blast
  from this [rule_format, of 1] have 2:
    "get_weather_data_df (\<lambda>_ _. Inr (JObj bare_response)) (\<lambda>_. ''?'') ''u'' ''hourly'' False None
       (Some ''B'') [(''latitude'', JInt 3), (''longitude'', JInt 4)] Map.empty
     = Inr (bare_frame ''B'' 3 4, Map.empty)"
    by (simp add: dict_get_def)
  from t have 3: "get_weather_data_multiple_locations (\<lambda>_ _ _. Inr (JObj bare_response))
       (\<lambda>_. ''?'') ''u'' [(''A'', JInt 1, JInt 2), (''B'', JInt 3, JInt 4)] ''hourly'' False []
       Map.empty
     = ([''Fetching data for A: (?, ?)'', ''Fetching data for B: (?, ?)''],
        Inr ([bare_frame ''A'' 1 2, bare_frame ''B'' 3 4], Map.empty))"
    by blast
  from 1 2 3 show ?thesis by blast
qed

end
